theory Spec2Isabelle
  imports Complex_Main "HOL-Library.AList"
begin

section \<open>Failures\<close>

text \<open>
  Every way in which the functions of \<^verbatim>\<open>clean_learn.py\<close> can stop with an exception.
  The first four are the \<^verbatim>\<open>raise Exception(...)\<close> statements of
  \<^verbatim>\<open>generate_plans_to_try\<close> (lines 97, 102, 105 and 154), named after the error kinds
  of the specification. \<open>MissingExtractedResult\<close> is the \<^verbatim>\<open>KeyError\<close> of indexing the
  shared results dictionary with a label it does not hold (lines 175 and 187); it carries
  the label. \<open>AttributeError\<close> is reading \<^verbatim>\<open>.value\<close> from an object that has none.
  The last five are raised by pandas: \<open>ColumnKeyError\<close> by \<^verbatim>\<open>df[column]\<close> for a column
  the frame does not have, \<open>BooleanIndexError\<close> by \<^verbatim>\<open>.loc[mask]\<close> for a mask that
  does not have one entry per row, \<open>LabelKeyError\<close> by \<^verbatim>\<open>drop\<close> for a label the index
  does not have, \<open>SetitemTypeError\<close> (a \<^verbatim>\<open>TypeError\<close>) by \<^verbatim>\<open>df.loc[...] = value\<close> for a
  value the dtype of the column cannot hold, and \<open>ArraysLengthError\<close> by the \<^verbatim>\<open>DataFrame\<close>
  constructor for columns of different lengths.
\<close>

datatype failure =
    MultiplePredictNodes
  | AmbiguousScoreNodeIdentity
  | UnsupportedErrorKind
  | UnknownCleaningMethod
  | MissingExtractedResult string
  | AttributeError
  | ColumnKeyError string
  | BooleanIndexError
  | LabelKeyError
  | SetitemTypeError
  | ArraysLengthError

section \<open>Data frames\<close>

text \<open>
  A pandas data frame, as far as \<^verbatim>\<open>drop_outliers\<close>, \<^verbatim>\<open>impute_outliers\<close> and the report
  use it: the row labels (the index, which pandas lets repeat) and the columns in their
  order, each a name (which pandas lets repeat as well) with one cell per row. Cells are
  opaque values.
\<close>

record ('l, 'v) DataFrame =
  df_index :: "'l list"
  df_columns :: "(string \<times> 'v list) list"

text \<open>
  A frame together with the dtypes of its columns. Writing into a column is the one
  operation here that consults a dtype, and all it asks is whether the column can hold the
  value; so the dtype of the column at a position is the predicate of the values it can
  hold. The report is never written into, and its dtypes are left out.
\<close>

record ('l, 'v) TypedFrame = "('l, 'v) DataFrame" +
  df_dtypes :: "nat \<Rightarrow> 'v \<Rightarrow> bool"

text \<open>What pandas maintains of every frame: one cell per row in every column.\<close>

definition wf_frame :: "('l, 'v, 'z) DataFrame_scheme \<Rightarrow> bool" where
  "wf_frame df = list_all (\<lambda>c. length (snd c) = length (df_index df)) (df_columns df)"

text \<open>
  What \<^verbatim>\<open>df[column]\<close> answers: a series (the row labels and the cells of the column) when
  one column has the name, a frame of the columns of that name when several have.
\<close>

datatype ('l, 'v) selection =
    Series "'l list" "'v list"
  | Columns "'l list" "(string \<times> 'v list) list"

fun selection_index :: "('l, 'v) selection \<Rightarrow> 'l list" where
  "selection_index (Series idx vs) = idx"
| "selection_index (Columns idx cols) = idx"

text \<open>
  The outlier predicate is a callable handed to \<^verbatim>\<open>.loc\<close>: pandas calls it with the
  selection and uses what it returns as a boolean mask over the rows.
\<close>

type_synonym ('l, 'v) outlier_func = "('l, 'v) selection \<Rightarrow> bool list"

text \<open>\<^verbatim>\<open>df[column]\<close>\<close>

definition getitem :: "('l, 'v, 'z) DataFrame_scheme \<Rightarrow> string \<Rightarrow> failure + ('l, 'v) selection" where
  "getitem df column =
     (case filter (\<lambda>c. fst c = column) (df_columns df) of
        [] \<Rightarrow> Inl (ColumnKeyError column)
      | c # rest \<Rightarrow>
          if rest = [] then Inr (Series (df_index df) (snd c))
          else Inr (Columns (df_index df) (c # rest)))"

text \<open>Keeping the entries of a list at the positions where a mask is true.\<close>

definition select :: "bool list \<Rightarrow> 'a list \<Rightarrow> 'a list" where
  "select sel xs = map snd (filter fst (zip sel xs))"

text \<open>
  \<^verbatim>\<open>selection.loc[outlier_func].index\<close>: the labels of the rows the mask selects. pandas
  reads an empty list as an empty list of labels, and refuses any other mask that does
  not have one entry per row.
\<close>

definition loc_index :: "('l, 'v) selection \<Rightarrow> ('l, 'v) outlier_func \<Rightarrow> failure + 'l list" where
  "loc_index selection outlier_func =
     (let sel = outlier_func selection in
      if sel = [] then Inr []
      else if length sel \<noteq> length (selection_index selection) then Inl BooleanIndexError
      else Inr (select sel (selection_index selection)))"

text \<open>\<^verbatim>\<open>df.drop(labels)\<close>: pandas removes every row whose label is among \<open>labels\<close>.\<close>

definition drop_labels ::
  "('l, 'v, 'z) DataFrame_scheme \<Rightarrow> 'l list \<Rightarrow> failure + ('l, 'v, 'z) DataFrame_scheme" where
  "drop_labels df labels =
     (if \<not> set labels \<subseteq> set (df_index df) then Inl LabelKeyError
      else
        (let keep = map (\<lambda>l. l \<notin> set labels) (df_index df) in
         Inr (df\<lparr>df_index := select keep (df_index df),
                 df_columns := map (\<lambda>(name, vs). (name, select keep vs)) (df_columns df)\<rparr>)))"

text \<open>
  \<^verbatim>\<open>df.loc[labels, column] = constant\<close>: pandas writes the constant into every column of
  that name at every row whose label is among \<open>labels\<close>. When no row is addressed nothing
  happens; otherwise pandas refuses, with a \<^verbatim>\<open>TypeError\<close>, a constant that the dtype of such
  a column cannot hold.
\<close>

definition loc_setitem ::
  "('l, 'v) TypedFrame \<Rightarrow> 'l list \<Rightarrow> string \<Rightarrow> 'v \<Rightarrow> failure + ('l, 'v) TypedFrame" where
  "loc_setitem df labels column constant =
     (if list_ex (\<lambda>l. l \<in> set labels) (df_index df) \<and>
         list_ex (\<lambda>(i, name, vs). name = column \<and> \<not> df_dtypes df i constant)
           (enumerate 0 (df_columns df))
      then Inl SetitemTypeError
      else
        Inr (df\<lparr>df_columns :=
                   map (\<lambda>(name, vs).
                          if name = column
                          then (name, map (\<lambda>(l, v). if l \<in> set labels then constant else v)
                                          (zip (df_index df) vs))
                          else (name, vs))
                       (df_columns df)\<rparr>))"

text \<open>Lines 59 to 64. \<^verbatim>\<open>input_df.copy()\<close> is the frame itself in a model of values.\<close>

definition drop_outliers ::
  "('l, 'v, 'z) DataFrame_scheme \<Rightarrow> string \<Rightarrow> ('l, 'v) outlier_func
     \<Rightarrow> failure + ('l, 'v, 'z) DataFrame_scheme" where
  "drop_outliers input_df column outlier_func =
     (let df_copy = input_df in
      case getitem df_copy column of
        Inl e \<Rightarrow> Inl e
      | Inr selection \<Rightarrow>
          (case loc_index selection outlier_func of
             Inl e \<Rightarrow> Inl e
           | Inr indexes \<Rightarrow> drop_labels df_copy indexes))"

text \<open>Lines 67 to 72.\<close>

definition impute_outliers ::
  "('l, 'v) TypedFrame \<Rightarrow> string \<Rightarrow> 'v \<Rightarrow> ('l, 'v) outlier_func \<Rightarrow> failure + ('l, 'v) TypedFrame"
  where
  "impute_outliers input_df column constant outlier_func =
     (let df_copy = input_df in
      case getitem df_copy column of
        Inl e \<Rightarrow> Inl e
      | Inr selection \<Rightarrow>
          (case loc_index selection outlier_func of
             Inl e \<Rightarrow> Inl e
           | Inr indexes \<Rightarrow> loc_setitem df_copy indexes column constant))"

text \<open>
  The frames the specification describes as results, written from its words: the rows a
  mask keeps, everything else as it was; the rows at which a mask does not hold; and the
  frame with one column overwritten where a mask holds.
\<close>

definition rows_kept ::
  "bool list \<Rightarrow> ('l, 'v, 'z) DataFrame_scheme \<Rightarrow> ('l, 'v, 'z) DataFrame_scheme" where
  "rows_kept keep df =
     df\<lparr>df_index := select keep (df_index df),
        df_columns := map (\<lambda>(name, vs). (name, select keep vs)) (df_columns df)\<rparr>"

definition rows_not_selected ::
  "bool list \<Rightarrow> ('l, 'v, 'z) DataFrame_scheme \<Rightarrow> ('l, 'v, 'z) DataFrame_scheme" where
  "rows_not_selected sel df = rows_kept (map Not sel) df"

definition column_overwritten ::
  "bool list \<Rightarrow> string \<Rightarrow> 'v \<Rightarrow> ('l, 'v, 'z) DataFrame_scheme \<Rightarrow> ('l, 'v, 'z) DataFrame_scheme"
  where
  "column_overwritten sel column constant df =
     df\<lparr>df_columns :=
          map (\<lambda>(name, vs).
                 if name = column
                 then (name, map (\<lambda>(b, v). if b then constant else v) (zip sel vs))
                 else (name, vs))
              (df_columns df)\<rparr>"

text \<open>The mask the predicate gives for a column of a frame.\<close>

definition outlier_mask ::
  "('l, 'v, 'z) DataFrame_scheme \<Rightarrow> string \<Rightarrow> ('l, 'v) outlier_func \<Rightarrow> bool list" where
  "outlier_mask df column outlier_func =
     (case getitem df column of Inl e \<Rightarrow> [] | Inr selection \<Rightarrow> outlier_func selection)"

text \<open>No row at which a mask does not hold shares its label with a row at which it
  holds.\<close>

definition no_shared_label :: "bool list \<Rightarrow> 'l list \<Rightarrow> bool" where
  "no_shared_label sel idx = (set (select sel idx) \<inter> set (select (map Not sel) idx) = {})"

text \<open>Every column of a name can hold a value.\<close>

definition column_can_hold :: "('l, 'v) TypedFrame \<Rightarrow> string \<Rightarrow> 'v \<Rightarrow> bool" where
  "column_can_hold df column constant =
     list_all (\<lambda>(i, name, vs). name = column \<longrightarrow> df_dtypes df i constant)
       (enumerate 0 (df_columns df))"

section \<open>Enumerations and the values Python lets stand in their place\<close>

datatype ErrorType = OUTLIER

datatype Clean = FILTER | IMPUTE

fun ErrorType_value :: "ErrorType \<Rightarrow> string" where
  "ErrorType_value OUTLIER = ''outliers''"

fun Clean_value :: "Clean \<Rightarrow> string" where
  "Clean_value FILTER = ''filter''"
| "Clean_value IMPUTE = ''impute''"

text \<open>
  Nothing checks what a caller passes as \<^verbatim>\<open>error\<close> and in \<^verbatim>\<open>cleanings\<close>: the code compares
  the objects with the enumeration members (lines 104, 109, 134) and has a branch for
  anything else (line 154). Such an object is \<open>ErrorForeign\<close> or \<open>CleanForeign\<close>; it carries
  the text of its \<^verbatim>\<open>.value\<close> attribute when it has one.
\<close>

datatype error_arg = ErrorMember ErrorType | ErrorForeign "string option"

datatype cleaning_arg = CleanMember Clean | CleanForeign "string option"

fun error_value :: "error_arg \<Rightarrow> failure + string" where
  "error_value (ErrorMember e) = Inr (ErrorType_value e)"
| "error_value (ErrorForeign None) = Inl AttributeError"
| "error_value (ErrorForeign (Some s)) = Inr s"

fun cleaning_value :: "cleaning_arg \<Rightarrow> failure + string" where
  "cleaning_value (CleanMember c) = Inr (Clean_value c)"
| "cleaning_value (CleanForeign None) = Inl AttributeError"
| "cleaning_value (CleanForeign (Some s)) = Inr s"

section \<open>Formatting\<close>

text \<open>What an f-string makes of an integer, of a line number and of a description;
  \<^verbatim>\<open>None\<close> is printed as the word.\<close>

fun digits_of :: "nat \<Rightarrow> string" where
  "digits_of n =
     (if n < 10 then [''0123456789'' ! n]
      else digits_of (n div 10) @ [''0123456789'' ! (n mod 10)])"

declare digits_of.simps [simp del]

definition str_int :: "int \<Rightarrow> string" where
  "str_int i = (if i < 0 then CHR ''-'' # digits_of (nat (- i)) else digits_of (nat i))"

definition format_lineno :: "int option \<Rightarrow> string" where
  "format_lineno lineno = (case lineno of None \<Rightarrow> ''None'' | Some i \<Rightarrow> str_int i)"

definition format_description :: "string option \<Rightarrow> string" where
  "format_description d = (case d of None \<Rightarrow> ''None'' | Some s \<Rightarrow> s)"

section \<open>Graph nodes, patches and the shared singleton\<close>

text \<open>
  Modelled from the spec: the declarations of \<^verbatim>\<open>OperatorType\<close>, \<^verbatim>\<open>BasicCodeLocation\<close>,
  \<^verbatim>\<open>OperatorContext\<close>, \<^verbatim>\<open>DagNodeDetails\<close> and \<^verbatim>\<open>DagNode\<close> (package \<^verbatim>\<open>mlmq\<close>) are not among
  the sources. The operator kinds are the ones the specification lists; the records have
  one field per positional argument of the constructor calls at lines 123 to 129 and 144
  to 149, named \<^verbatim>\<open>code_location\<close>, \<^verbatim>\<open>lineno\<close>, \<^verbatim>\<open>details\<close> and \<^verbatim>\<open>description\<close> as lines 100
  and 165 read them.
\<close>

datatype OperatorType =
  SOURCE | SELECTION | PROJECTION_MODIFY | ESTIMATOR_FIT | PREDICT | SCORE | OtherOperator string

record BasicCodeLocation =
  caller_filename :: string
  lineno :: "int option"

record OperatorContext =
  operator :: OperatorType
  function_info :: "string option"

record DagNodeDetails =
  description :: "string option"
  columns :: "string list option"

text \<open>
  The transform attached to a node. The two \<^verbatim>\<open>functools.partial\<close> objects of lines 121
  and 142 are the function together with its bound keyword arguments; the transform of a
  recorded node is a reference this file never calls.
\<close>

datatype ('l, 'v) transform =
    RecordedTransform string
  | partial_drop_outliers string "('l, 'v) outlier_func"
  | partial_impute_outliers string 'v "('l, 'v) outlier_func"

fun call_partial ::
  "('l, 'v) transform \<Rightarrow> ('l, 'v) TypedFrame \<Rightarrow> (failure + ('l, 'v) TypedFrame) option" where
  "call_partial (RecordedTransform r) input_df = None"
| "call_partial (partial_drop_outliers col f) input_df = Some (drop_outliers input_df col f)"
| "call_partial (partial_impute_outliers col c f) input_df =
     Some (impute_outliers input_df col c f)"

record ('l, 'v) DagNode =
  node_id :: int
  code_location :: BasicCodeLocation
  operator_info :: OperatorContext
  details :: DagNodeDetails
  optional_code_info :: "string option"
  processing_func :: "('l, 'v) transform option"

text \<open>\<^verbatim>\<open>self._analysis_id\<close> (line 87); a patch refers to its analysis by it.\<close>

type_synonym 'v analysis_id = "string \<times> error_arg \<times> 'v \<times> cleaning_arg list"

text \<open>
  Modelled from the spec: the declarations of \<^verbatim>\<open>DataFiltering\<close>, \<^verbatim>\<open>DataProjection\<close> and of
  the extraction patch (\<^verbatim>\<open>mlmq.execution._patches\<close>) are not among the sources. The first two
  take their arguments in the order of the calls at lines 130 and 150: patch id, analysis,
  a flag, the new node, the train-or-test flag, and then for \<open>DataFiltering\<close> the columns
  it reads (\<^verbatim>\<open>required_cols\<close>), for \<open>DataProjection\<close> the column it writes, the columns it
  reads (\<^verbatim>\<open>only_reads_column\<close>) and a last argument that is \<^verbatim>\<open>None\<close>. An \<open>Extraction\<close> marks a
  node whose output is to be stored in the results mapping under a label.
\<close>

datatype ('l, 'v) PipelinePatch =
    DataFiltering int "'v analysis_id" bool "('l, 'v) DagNode" bool "string list"
  | DataProjection int "'v analysis_id" bool "('l, 'v) DagNode" bool string "string list"
      "unit option"
  | Extraction int "'v analysis_id" "('l, 'v) DagNode" string

text \<open>
  Modelled from the spec: the \<^verbatim>\<open>singleton\<close> of \<^verbatim>\<open>mlmq.execution._pipeline_executor\<close> is not
  among the sources. It holds the two monotonic counters and the results mapping from
  labels to opaque values; issuing an id returns the counter and moves it on by one.
\<close>

record 'r singleton_state =
  next_op_id :: int
  next_patch_id :: int
  labels_to_extracted_plan_results :: "string \<rightharpoonup> 'r"

definition get_next_op_id :: "'r singleton_state \<Rightarrow> int \<times> 'r singleton_state" where
  "get_next_op_id s = (next_op_id s, s\<lparr>next_op_id := next_op_id s + 1\<rparr>)"

definition get_next_patch_id :: "'r singleton_state \<Rightarrow> int \<times> 'r singleton_state" where
  "get_next_patch_id s = (next_patch_id s, s\<lparr>next_patch_id := next_patch_id s + 1\<rparr>)"

text \<open>
  Modelled from the spec: the graph and its two query collaborators
  (\<^verbatim>\<open>mlmq.analysis._analysis_utils\<close>) are not among the sources. A graph is its nodes and
  edges; \<open>find_nodes_by_type\<close> finds the nodes of an operator kind; what
  \<^verbatim>\<open>get_columns_used_as_feature\<close> answers for a graph is carried with the graph.
\<close>

record ('l, 'v) PipelineGraph =
  dag_nodes :: "('l, 'v) DagNode list"
  dag_edges :: "(int \<times> int) list"
  columns_used_as_feature :: "string list"

definition find_nodes_by_type ::
  "('l, 'v) PipelineGraph \<Rightarrow> OperatorType \<Rightarrow> ('l, 'v) DagNode list" where
  "find_nodes_by_type dag t = filter (\<lambda>node. operator (operator_info node) = t) (dag_nodes dag)"

definition get_columns_used_as_feature :: "('l, 'v) PipelineGraph \<Rightarrow> string list" where
  "get_columns_used_as_feature dag = columns_used_as_feature dag"

section \<open>The analysis object\<close>

text \<open>The attributes \<^verbatim>\<open>__init__\<close> sets (lines 80 to 87).\<close>

record ('l, 'v) CleanLearn =
  column :: string
  error :: error_arg
  cleanings :: "cleaning_arg list"
  score_nodes_and_linenos :: "(('l, 'v) DagNode \<times> int option) list"
  impute_constant :: 'v
  outlier_func :: "('l, 'v) outlier_func"
  analysis_id :: "'v analysis_id"

definition CleanLearn_init ::
  "string \<Rightarrow> error_arg \<Rightarrow> cleaning_arg list \<Rightarrow> 'v \<Rightarrow> ('l, 'v) outlier_func \<Rightarrow> ('l, 'v) CleanLearn"
  where
  "CleanLearn_init col err cls c f =
     \<lparr>column = col, error = err, cleanings = cls, score_nodes_and_linenos = [],
      impute_constant = c, outlier_func = f, analysis_id = (col, err, c, cls)\<rparr>"

section \<open>Plan generation\<close>

text \<open>
  Modelled from the spec: \<^verbatim>\<open>get_intermediate_extraction_patch_after_score_nodes\<close>
  (\<^verbatim>\<open>mlmq.analysis._patch_creation\<close>) is not among the sources. For every pair of a score node
  and its line, in order, it makes one extraction patch with a patch id from the shared
  counter, storing the node's output under \<^verbatim>\<open>{prefix}_L{line}\<close>.
\<close>

fun get_intermediate_extraction_patch_after_score_nodes ::
  "'r singleton_state \<Rightarrow> ('l, 'v) CleanLearn \<Rightarrow> string \<Rightarrow> (('l, 'v) DagNode \<times> int option) list
     \<Rightarrow> ('l, 'v) PipelinePatch list \<times> 'r singleton_state" where
  "get_intermediate_extraction_patch_after_score_nodes s self label [] = ([], s)"
| "get_intermediate_extraction_patch_after_score_nodes s self label ((node, line) # rest) =
     (let (patch_id, s1) = get_next_patch_id s;
          patch = Extraction patch_id (analysis_id self) node (label @ ''_L'' @ format_lineno line);
          (patches, s2) = get_intermediate_extraction_patch_after_score_nodes s1 self label rest
      in (patch # patches, s2))"

text \<open>
  The body of the loop for \<^verbatim>\<open>Clean.FILTER\<close> (lines 110 to 132). A Python set has no order of
  its own; here \<^verbatim>\<open>set(...)\<close> keeps one copy of every column and \<^verbatim>\<open>list(...)\<close> lists them.
\<close>

definition filter_variant ::
  "('l, 'v) CleanLearn \<Rightarrow> ('l, 'v) PipelineGraph \<Rightarrow> 'r singleton_state
     \<Rightarrow> ('l, 'v) PipelinePatch list \<times> 'r singleton_state" where
  "filter_variant self dag s =
     (let cleaning_result_label = ''data-cleaning-'' @ column self @ ''-'' @ Clean_value FILTER;
          (extraction_nodes, s1) =
             get_intermediate_extraction_patch_after_score_nodes s self cleaning_result_label
               (score_nodes_and_linenos self);
          patches_for_variant = [] @ extraction_nodes;
          feature_cols = remdups (get_columns_used_as_feature dag);
          required_cols = (if column self \<in> set feature_cols then feature_cols else [column self]);
          filter_func = partial_drop_outliers (column self) (outlier_func self);
          (op_id, s2) = get_next_op_id s1;
          new_test_cleaning_node =
            \<lparr>node_id = op_id,
             code_location = \<lparr>caller_filename = ''Data Cleaning'', lineno = None\<rparr>,
             operator_info = \<lparr>operator = SELECTION, function_info = None\<rparr>,
             details = \<lparr>description = Some (''Clean '' @ column self @ '': filter''),
                        columns = None\<rparr>,
             optional_code_info = None,
             processing_func = Some filter_func\<rparr>;
          (patch_id, s3) = get_next_patch_id s2;
          filter_patch_train =
            DataFiltering patch_id (analysis_id self) True new_test_cleaning_node False required_cols
      in (patches_for_variant @ [filter_patch_train], s3))"

text \<open>The body of the loop for \<^verbatim>\<open>Clean.IMPUTE\<close> (lines 135 to 152).\<close>

definition impute_variant ::
  "('l, 'v) CleanLearn \<Rightarrow> 'r singleton_state \<Rightarrow> ('l, 'v) PipelinePatch list \<times> 'r singleton_state"
  where
  "impute_variant self s =
     (let cleaning_result_label = ''data-cleaning-'' @ column self @ ''-'' @ Clean_value IMPUTE;
          (extraction_nodes, s1) =
             get_intermediate_extraction_patch_after_score_nodes s self cleaning_result_label
               (score_nodes_and_linenos self);
          patches_for_variant = [] @ extraction_nodes;
          only_reads_column = [column self];
          projection =
            partial_impute_outliers (column self) (impute_constant self) (outlier_func self);
          (op_id, s2) = get_next_op_id s1;
          new_projection_node =
            \<lparr>node_id = op_id,
             code_location = \<lparr>caller_filename = ''DataCorruption'', lineno = None\<rparr>,
             operator_info = \<lparr>operator = PROJECTION_MODIFY, function_info = None\<rparr>,
             details = \<lparr>description = Some (''Clean '' @ column self @ '': impute''),
                        columns = None\<rparr>,
             optional_code_info = None,
             processing_func = Some projection\<rparr>;
          (patch_id, s3) = get_next_patch_id s2;
          patch =
            DataProjection patch_id (analysis_id self) True new_projection_node False (column self)
              only_reads_column None
      in (patches_for_variant @ [patch], s3))"

text \<open>The loop over \<^verbatim>\<open>self.cleanings\<close> (lines 108 to 156). A failure leaves the ids it has
  issued so far issued.\<close>

fun plans_loop ::
  "('l, 'v) CleanLearn \<Rightarrow> ('l, 'v) PipelineGraph \<Rightarrow> cleaning_arg list
     \<Rightarrow> ('l, 'v) PipelinePatch list list \<Rightarrow> 'r singleton_state
     \<Rightarrow> (failure + ('l, 'v) PipelinePatch list list) \<times> 'r singleton_state" where
  "plans_loop self dag [] cleaning_patch_sets s = (Inr cleaning_patch_sets, s)"
| "plans_loop self dag (CleanMember FILTER # rest) cleaning_patch_sets s =
     (let (patches_for_variant, s') = filter_variant self dag s
      in plans_loop self dag rest (cleaning_patch_sets @ [patches_for_variant]) s')"
| "plans_loop self dag (CleanMember IMPUTE # rest) cleaning_patch_sets s =
     (let (patches_for_variant, s') = impute_variant self s
      in plans_loop self dag rest (cleaning_patch_sets @ [patches_for_variant]) s')"
| "plans_loop self dag (CleanForeign x # rest) cleaning_patch_sets s =
     (Inl UnknownCleaningMethod, s)"

text \<open>
  Lines 93 to 157. The function returns the plans or the failure, together with the
  analysis object and the singleton as it leaves them: line 100 assigns
  \<^verbatim>\<open>self._score_nodes_and_linenos\<close> before the second and third checks.
\<close>

definition generate_plans_to_try ::
  "('l, 'v) CleanLearn \<Rightarrow> 'r singleton_state \<Rightarrow> ('l, 'v) PipelineGraph
     \<Rightarrow> (failure + ('l, 'v) PipelinePatch list list) \<times> ('l, 'v) CleanLearn \<times> 'r singleton_state"
  where
  "generate_plans_to_try self s dag =
     (let predict_operators = find_nodes_by_type dag PREDICT in
      if length predict_operators \<noteq> 1 then (Inl MultiplePredictNodes, self, s)
      else
        (let score_operators = find_nodes_by_type dag SCORE;
             self1 = self\<lparr>score_nodes_and_linenos :=
                             map (\<lambda>node. (node, lineno (code_location node))) score_operators\<rparr>
         in
           if length (score_nodes_and_linenos self1)
                \<noteq> length (remdups (score_nodes_and_linenos self1))
           then (Inl AmbiguousScoreNodeIdentity, self1, s)
           else if error self1 \<noteq> ErrorMember OUTLIER
           then (Inl UnsupportedErrorKind, self1, s)
           else
             (let (r, s') = plans_loop self1 dag (cleanings self1) [] s
              in (r, self1, s'))))"

section \<open>The report\<close>

text \<open>A cell of the report: \<^verbatim>\<open>None\<close>, a string, or a value of the results mapping.\<close>

datatype 'r cell = NoneCell | StrCell string | ResultCell 'r

text \<open>
  The two inner loops over the score descriptions and lines (lines 171 to 176 and 183 to
  188) differ in the label only, here \<^verbatim>\<open>{prefix}_L{lineno}\<close>. \<open>result_df_metrics\<close> is a
  Python dictionary, kept in insertion order; \<^verbatim>\<open>.get(name, [])\<close> is the lookup with a
  default. The values are looked up in \<open>results\<close>, which the callers below take from the
  singleton.
\<close>

fun metrics_loop ::
  "(string \<rightharpoonup> 'r) \<Rightarrow> string \<Rightarrow> (string option \<times> int option) list
     \<Rightarrow> (string \<times> 'r list) list \<Rightarrow> failure + (string \<times> 'r list) list" where
  "metrics_loop results prefix [] result_df_metrics = Inr result_df_metrics"
| "metrics_loop results prefix ((score_description, line) # rest) result_df_metrics =
     (let result_label = prefix @ ''_L'' @ format_lineno line;
          test_result_column_name =
            format_description score_description @ ''_L'' @ format_lineno line;
          test_column_values =
            (case map_of result_df_metrics test_result_column_name of
               None \<Rightarrow> [] | Some vs \<Rightarrow> vs)
      in case results result_label of
           None \<Rightarrow> Inl (MissingExtractedResult result_label)
         | Some v \<Rightarrow>
             metrics_loop results prefix rest
               (AList.update test_result_column_name (test_column_values @ [v])
                  result_df_metrics))"

text \<open>The four accumulators of \<^verbatim>\<open>generate_final_report\<close> (lines 161 to 164).\<close>

record 'r report_lists =
  result_df_columns :: "'r cell list"
  result_df_errors :: "'r cell list"
  result_df_cleaning_methods :: "'r cell list"
  result_df_metrics :: "(string \<times> 'r list) list"

text \<open>The loop over \<^verbatim>\<open>self.cleanings\<close> (lines 179 to 188).\<close>

fun report_rows_loop ::
  "(string \<rightharpoonup> 'r) \<Rightarrow> string \<Rightarrow> error_arg \<Rightarrow> (string option \<times> int option) list
     \<Rightarrow> cleaning_arg list \<Rightarrow> 'r report_lists \<Rightarrow> failure + 'r report_lists" where
  "report_rows_loop results col error_type pairs [] acc = Inr acc"
| "report_rows_loop results col error_type pairs (cleaning # rest) acc =
     (case error_value error_type of
        Inl e \<Rightarrow> Inl e
      | Inr ev \<Rightarrow>
          (case cleaning_value cleaning of
             Inl e \<Rightarrow> Inl e
           | Inr cv \<Rightarrow>
               (case metrics_loop results (''data-cleaning-'' @ col @ ''-'' @ cv) pairs
                       (result_df_metrics acc) of
                  Inl e \<Rightarrow> Inl e
                | Inr metrics \<Rightarrow>
                    report_rows_loop results col error_type pairs rest
                      \<lparr>result_df_columns = result_df_columns acc @ [StrCell col],
                       result_df_errors = result_df_errors acc @ [StrCell ev],
                       result_df_cleaning_methods = result_df_cleaning_methods acc @ [StrCell cv],
                       result_df_metrics = metrics\<rparr>)))"

text \<open>
  \<^verbatim>\<open>pandas.DataFrame(dict)\<close> for a dictionary of lists: the columns in the dictionary's
  order over the row labels 0, 1, ...; pandas refuses lists of different lengths.
\<close>

definition pandas_DataFrame :: "(string \<times> 'c list) list \<Rightarrow> failure + (nat, 'c) DataFrame" where
  "pandas_DataFrame d =
     (case d of
        [] \<Rightarrow> Inr \<lparr>df_index = [], df_columns = []\<rparr>
      | (name, vs) # rest \<Rightarrow>
          if list_all (\<lambda>c. length (snd c) = length vs) rest
          then Inr \<lparr>df_index = [0..<length vs], df_columns = d\<rparr>
          else Inl ArraysLengthError)"

text \<open>The dictionary display of lines 189 to 192: later keys overwrite earlier ones.\<close>

definition report_dict :: "'r report_lists \<Rightarrow> (string \<times> 'r cell list) list" where
  "report_dict acc =
     foldl (\<lambda>d (k, vs). AList.update k vs d) []
       ([(''corrupted_column'', result_df_columns acc),
         (''error'', result_df_errors acc),
         (''cleaning_method'', result_df_cleaning_methods acc)]
        @ map (\<lambda>(k, vs). (k, map ResultCell vs)) (result_df_metrics acc))"

text \<open>
  Lines 159 to 193. The argument \<open>extracted_plan_results\<close> is the function's parameter;
  the values are read from \<^verbatim>\<open>singleton.labels_to_extracted_plan_results\<close>.
\<close>

definition generate_final_report ::
  "('l, 'v) CleanLearn \<Rightarrow> 'r singleton_state \<Rightarrow> (string \<rightharpoonup> 'r)
     \<Rightarrow> failure + (nat, 'r cell) DataFrame" where
  "generate_final_report self s extracted_plan_results =
     (let score_description_and_linenos =
            map (\<lambda>(score_node, line). (description (details score_node), line))
              (score_nodes_and_linenos self)
      in case metrics_loop (labels_to_extracted_plan_results s) ''original''
                score_description_and_linenos [] of
           Inl e \<Rightarrow> Inl e
         | Inr metrics \<Rightarrow>
             (case report_rows_loop (labels_to_extracted_plan_results s) (column self)
                     (error self) score_description_and_linenos (cleanings self)
                     \<lparr>result_df_columns = [NoneCell], result_df_errors = [NoneCell],
                      result_df_cleaning_methods = [NoneCell], result_df_metrics = metrics\<rparr> of
                Inl e \<Rightarrow> Inl e
              | Inr acc \<Rightarrow> pandas_DataFrame (report_dict acc)))"

text \<open>The column names of a frame and its rows, read across the columns.\<close>

definition column_names :: "('l, 'v) DataFrame \<Rightarrow> string list" where
  "column_names df = map fst (df_columns df)"

definition df_rows :: "('l, 'v) DataFrame \<Rightarrow> 'v list list" where
  "df_rows df = map (\<lambda>i. map (\<lambda>c. snd c ! i) (df_columns df)) [0..<length (df_index df)]"

section \<open>Reading plans and reports\<close>

text \<open>
  What a plan variant is made of: the cleaning method a patch intervenes with (none for an
  extraction), the node and label of an extraction, the synthetic node of an
  intervention, and the columns an intervention declares as read and as written.
\<close>

fun patch_method :: "('l, 'v) PipelinePatch \<Rightarrow> Clean option" where
  "patch_method (DataFiltering pid aid chg node tnt cols) = Some FILTER"
| "patch_method (DataProjection pid aid chg node tnt wr cols sel) = Some IMPUTE"
| "patch_method (Extraction pid aid node label) = None"

fun extraction_of :: "('l, 'v) PipelinePatch \<Rightarrow> (('l, 'v) DagNode \<times> string) option" where
  "extraction_of (Extraction pid aid node label) = Some (node, label)"
| "extraction_of (DataFiltering pid aid chg node tnt cols) = None"
| "extraction_of (DataProjection pid aid chg node tnt wr cols sel) = None"

fun intervention_node :: "('l, 'v) PipelinePatch \<Rightarrow> ('l, 'v) DagNode option" where
  "intervention_node (DataFiltering pid aid chg node tnt cols) = Some node"
| "intervention_node (DataProjection pid aid chg node tnt wr cols sel) = Some node"
| "intervention_node (Extraction pid aid node label) = None"

fun read_columns :: "('l, 'v) PipelinePatch \<Rightarrow> string list" where
  "read_columns (DataFiltering pid aid chg node tnt cols) = cols"
| "read_columns (DataProjection pid aid chg node tnt wr cols sel) = cols"
| "read_columns (Extraction pid aid node label) = []"

fun written_columns :: "('l, 'v) PipelinePatch \<Rightarrow> string list" where
  "written_columns (DataProjection pid aid chg node tnt wr cols sel) = [wr]"
| "written_columns (DataFiltering pid aid chg node tnt cols) = []"
| "written_columns (Extraction pid aid node label) = []"

text \<open>The id of a patch and the analysis it belongs to.\<close>

fun patch_id :: "('l, 'v) PipelinePatch \<Rightarrow> int" where
  "patch_id (DataFiltering pid aid chg node tnt cols) = pid"
| "patch_id (DataProjection pid aid chg node tnt wr cols sel) = pid"
| "patch_id (Extraction pid aid node label) = pid"

fun patch_analysis :: "('l, 'v) PipelinePatch \<Rightarrow> 'v analysis_id" where
  "patch_analysis (DataFiltering pid aid chg node tnt cols) = aid"
| "patch_analysis (DataProjection pid aid chg node tnt wr cols sel) = aid"
| "patch_analysis (Extraction pid aid node label) = aid"

text \<open>The synthetic nodes of a variant.\<close>

definition intervention_nodes :: "('l, 'v) PipelinePatch list \<Rightarrow> ('l, 'v) DagNode list" where
  "intervention_nodes v =
     concat (map (\<lambda>p. case intervention_node p of None \<Rightarrow> [] | Some node \<Rightarrow> [node]) v)"

text \<open>The label of a method and a score line.\<close>

definition variant_label :: "string \<Rightarrow> Clean \<Rightarrow> int option \<Rightarrow> string" where
  "variant_label col m line =
     ''data-cleaning-'' @ col @ ''-'' @ Clean_value m @ ''_L'' @ format_lineno line"

text \<open>
  The intervention of a method, in the words of the specification (section 4.2). Its
  synthetic node has the operator kind of the method, the description
  \<^verbatim>\<open>Clean {column}: {method}\<close> and the transform bound to the column, the predicate and, for
  IMPUTE, the constant of the analysis; the code-location tag is left to C9. Its patch
  belongs to the analysis, carries the two flags as \<open>True\<close> and \<open>False\<close>, and declares its
  columns: for FILTER the feature columns when the target column is one of them and the
  target column alone otherwise, for IMPUTE the target column as the one read and the one
  written.
\<close>

definition is_intervention_node :: "('l, 'v) CleanLearn \<Rightarrow> Clean \<Rightarrow> ('l, 'v) DagNode \<Rightarrow> bool" where
  "is_intervention_node self m node =
     (lineno (code_location node) = None \<and>
      operator_info node =
        \<lparr>operator = (case m of FILTER \<Rightarrow> SELECTION | IMPUTE \<Rightarrow> PROJECTION_MODIFY),
         function_info = None\<rparr> \<and>
      details node =
        \<lparr>description = Some (''Clean '' @ column self @ '': '' @ Clean_value m),
         columns = None\<rparr> \<and>
      optional_code_info node = None \<and>
      processing_func node =
        Some (case m of
                FILTER \<Rightarrow> partial_drop_outliers (column self) (outlier_func self)
              | IMPUTE \<Rightarrow>
                  partial_impute_outliers (column self) (impute_constant self)
                    (outlier_func self)))"

fun is_intervention_of ::
  "('l, 'v) CleanLearn \<Rightarrow> ('l, 'v) PipelineGraph \<Rightarrow> Clean \<Rightarrow> ('l, 'v) PipelinePatch \<Rightarrow> bool"
  where
  "is_intervention_of self dag m (DataFiltering pid aid chg node tnt cols) =
     (m = FILTER \<and> aid = analysis_id self \<and> chg \<and> \<not> tnt \<and>
      is_intervention_node self FILTER node \<and> distinct cols \<and>
      set cols =
        (if column self \<in> set (get_columns_used_as_feature dag)
         then set (get_columns_used_as_feature dag) else {column self}))"
| "is_intervention_of self dag m (DataProjection pid aid chg node tnt wr cols sel) =
     (m = IMPUTE \<and> aid = analysis_id self \<and> chg \<and> \<not> tnt \<and>
      is_intervention_node self IMPUTE node \<and>
      wr = column self \<and> cols = [column self] \<and> sel = None)"
| "is_intervention_of self dag m (Extraction pid aid node label) = False"

text \<open>
  A variant for a method, in the words of the specification: one extraction patch of the
  analysis per score node and line, labelled \<^verbatim>\<open>data-cleaning-{column}-{method}_L{line}\<close>,
  followed by the single intervention patch of the method.
\<close>

definition is_variant_of ::
  "('l, 'v) CleanLearn \<Rightarrow> ('l, 'v) PipelineGraph \<Rightarrow> (('l, 'v) DagNode \<times> int option) list
     \<Rightarrow> Clean \<Rightarrow> ('l, 'v) PipelinePatch list \<Rightarrow> bool"
  where
  "is_variant_of self dag scores m v =
     (v \<noteq> [] \<and>
      map extraction_of (butlast v)
        = map (\<lambda>(node, line). Some (node, variant_label (column self) m line)) scores \<and>
      list_all (\<lambda>p. patch_analysis p = analysis_id self) (butlast v) \<and>
      is_intervention_of self dag m (last v))"

text \<open>The labels a report needs: the baseline label of every score line, then the label
  of every method and score line.\<close>

definition required_labels :: "string \<Rightarrow> Clean list \<Rightarrow> int option list \<Rightarrow> string list" where
  "required_labels col ms lines =
     map (\<lambda>line. ''original_L'' @ format_lineno line) lines
     @ concat (map (\<lambda>m. map (variant_label col m) lines) ms)"

section \<open>Example inputs\<close>

fun outliers_above :: "int \<Rightarrow> (nat, int) outlier_func" where
  "outliers_above bound (Series idx vs) = map (\<lambda>v. bound < v) vs"
| "outliers_above bound (Columns idx cols) = map (\<lambda>l. False) idx"

definition int64 :: "int \<Rightarrow> bool" where
  "int64 v = (- (2 ^ 63) \<le> v \<and> v < 2 ^ 63)"

definition ages_frame :: "(nat, int) TypedFrame" where
  "ages_frame = \<lparr>df_index = [0, 1, 2],
                 df_columns = [(''age'', [30, 120, 41]), (''income'', [10, 20, 30])],
                 df_dtypes = (\<lambda>i. int64)\<rparr>"

definition repeated_labels_frame :: "(nat, int) TypedFrame" where
  "repeated_labels_frame =
     \<lparr>df_index = [0, 0], df_columns = [(''age'', [30, 120])], df_dtypes = (\<lambda>i. int64)\<rparr>"

definition predict_node :: "int \<Rightarrow> (nat, int) DagNode" where
  "predict_node i =
     \<lparr>node_id = i,
      code_location = \<lparr>caller_filename = ''pipeline.py'', lineno = Some 40\<rparr>,
      operator_info = \<lparr>operator = PREDICT, function_info = None\<rparr>,
      details = \<lparr>description = Some ''predict'', columns = None\<rparr>,
      optional_code_info = None,
      processing_func = None\<rparr>"

definition accuracy_node :: "(nat, int) DagNode" where
  "accuracy_node =
     \<lparr>node_id = 7,
      code_location = \<lparr>caller_filename = ''pipeline.py'', lineno = Some 42\<rparr>,
      operator_info = \<lparr>operator = SCORE, function_info = None\<rparr>,
      details = \<lparr>description = Some ''accuracy'', columns = None\<rparr>,
      optional_code_info = None,
      processing_func = None\<rparr>"

definition accuracy_dag :: "(nat, int) PipelineGraph" where
  "accuracy_dag =
     \<lparr>dag_nodes = [predict_node 6, accuracy_node], dag_edges = [(6, 7)],
      columns_used_as_feature = [''age'', ''income'']\<rparr>"

definition two_predict_dag :: "(nat, int) PipelineGraph" where
  "two_predict_dag =
     \<lparr>dag_nodes = [predict_node 5, predict_node 6, accuracy_node], dag_edges = [(5, 7), (6, 7)],
      columns_used_as_feature = [''age'', ''income'']\<rparr>"

definition income_only_dag :: "(nat, int) PipelineGraph" where
  "income_only_dag = accuracy_dag\<lparr>columns_used_as_feature := [''income'']\<rparr>"

definition age_analysis :: "cleaning_arg list \<Rightarrow> (nat, int) CleanLearn" where
  "age_analysis cls = CleanLearn_init ''age'' (ErrorMember OUTLIER) cls 0 (outliers_above 100)"

definition accuracy_results :: "string \<rightharpoonup> real" where
  "accuracy_results =
     [''original_L42'' \<mapsto> 0.80,
      ''data-cleaning-age-filter_L42'' \<mapsto> 0.83,
      ''data-cleaning-age-impute_L42'' \<mapsto> 0.81]"

definition singleton_with :: "(string \<rightharpoonup> real) \<Rightarrow> real singleton_state" where
  "singleton_with results =
     \<lparr>next_op_id = 8, next_patch_id = 0, labels_to_extracted_plan_results = results\<rparr>"

definition planned_analysis :: "(nat, int) CleanLearn" where
  "planned_analysis =
     fst (snd (generate_plans_to_try (age_analysis [CleanMember FILTER, CleanMember IMPUTE])
                 (singleton_with Map.empty) accuracy_dag))"

definition results_without_impute :: "string \<rightharpoonup> real" where
  "results_without_impute =
     [''original_L42'' \<mapsto> 0.80, ''data-cleaning-age-filter_L42'' \<mapsto> 0.83]"

section \<open>Properties of the data frame functions\<close>


lemma select_Cons [simp]:
  "select (b # bs) (x # xs) = (if b then x # select bs xs else select bs xs)"
  by (simp add: select_def)

lemma select_Nil [simp]: "select [] xs = []" "select bs [] = []"
  by (simp_all add: select_def)










lemma getitem_absent:
  "col \<notin> set (map fst (df_columns df)) \<Longrightarrow> getitem df col = Inl (ColumnKeyError col)"
proof -
  assume "col \<notin> set (map fst (df_columns df))"
  then have "filter (\<lambda>c. fst c = col) (df_columns df) = []"
    by (auto simp: filter_empty_conv)
  then show ?thesis by (simp add: getitem_def)
qed






lemmas frame_eval =
  ages_frame_def repeated_labels_frame_def wf_frame_def outlier_mask_def
  drop_outliers_def impute_outliers_def getitem_def loc_index_def drop_labels_def
  loc_setitem_def rows_kept_def rows_not_selected_def column_overwritten_def
  no_shared_label_def column_can_hold_def int64_def enumerate_eq_zip Let_def







text \<open>When the predicate holds at no row, nothing is written and no constant is refused.\<close>

lemma impute_nothing_example:
  "impute_outliers ages_frame ''age'' (- (2 ^ 63) - 1) (outliers_above 200) = Inr ages_frame"
  by (simp add: frame_eval)

section \<open>Properties of plan generation\<close>

lemmas example_defs =
  age_analysis_def CleanLearn_init_def singleton_with_def accuracy_dag_def accuracy_node_def
  predict_node_def two_predict_dag_def

lemmas plan_eval =
  generate_plans_to_try_def find_nodes_by_type_def filter_variant_def impute_variant_def
  get_next_op_id_def get_next_patch_id_def get_columns_used_as_feature_def format_lineno_def
  str_int_def digits_of.simps Let_def

text \<open>The extraction patches: one per score node and line, in order, labelled with the
  prefix and the line.\<close>

lemma extraction_patches:
  "map extraction_of (fst (get_intermediate_extraction_patch_after_score_nodes s self label pairs))
     = map (\<lambda>(node, line). Some (node, label @ ''_L'' @ format_lineno line)) pairs"
proof (induction pairs arbitrary: s)
  case Nil
  then show ?case by simp
next
  case (Cons p pairs)
  obtain node line where p: "p = (node, line)" by (cases p)
  obtain pid s1 where g: "get_next_patch_id s = (pid, s1)" by (cases "get_next_patch_id s")
  obtain ps s2 where
    r: "get_intermediate_extraction_patch_after_score_nodes s1 self label pairs = (ps, s2)"
    by (cases "get_intermediate_extraction_patch_after_score_nodes s1 self label pairs")
  have "map extraction_of ps
          = map (\<lambda>(node, line). Some (node, label @ ''_L'' @ format_lineno line)) pairs"
    using Cons [of s1] r by simp
  then show ?case by (simp add: p g r)
qed

lemma filter_variant_shape:
  "\<exists>pid node.
     fst (filter_variant self dag s)
       = fst (get_intermediate_extraction_patch_after_score_nodes s self
                (''data-cleaning-'' @ column self @ ''-filter'') (score_nodes_and_linenos self))
         @ [DataFiltering pid (analysis_id self) True node False
              (if column self \<in> set (get_columns_used_as_feature dag)
               then remdups (get_columns_used_as_feature dag) else [column self])]"
  by (simp add: filter_variant_def split_def Let_def)

lemma impute_variant_shape:
  "\<exists>pid node.
     fst (impute_variant self s)
       = fst (get_intermediate_extraction_patch_after_score_nodes s self
                (''data-cleaning-'' @ column self @ ''-impute'') (score_nodes_and_linenos self))
         @ [DataProjection pid (analysis_id self) True node False (column self) [column self] None]"
  by (simp add: impute_variant_def split_def Let_def)

text \<open>A loop that returns plans has appended one variant per cleaning, in order, each
  built by the branch of its method at some state of the singleton.\<close>

lemma plans_loop_result:
  "plans_loop self dag cs acc (s :: 'r singleton_state) = (Inr plans, s') \<Longrightarrow>
   \<exists>vs. plans = acc @ vs \<and>
     list_all2 (\<lambda>c v. \<exists>si :: 'r singleton_state. (c = CleanMember FILTER \<and> v = fst (filter_variant self dag si)) \<or>
                           (c = CleanMember IMPUTE \<and> v = fst (impute_variant self si))) cs vs"
proof (induction cs arbitrary: acc s)
  case Nil
  then show ?case by simp
next
  case (Cons c cs)
  let ?R = "\<lambda>c v. \<exists>si :: 'r singleton_state. (c = CleanMember FILTER \<and> v = fst (filter_variant self dag si)) \<or>
                        (c = CleanMember IMPUTE \<and> v = fst (impute_variant self si))"
  have step: "\<exists>vs. plans = acc @ vs \<and> list_all2 ?R (c # cs) vs"
    if run: "plans_loop self dag cs (acc @ [v]) s1 = (Inr plans, s')" and head: "?R c v"
    for v s1
  proof -
    from Cons.IH [OF run] obtain vs where "plans = (acc @ [v]) @ vs" "list_all2 ?R cs vs"
      by blast
    then have "plans = acc @ (v # vs)" "list_all2 ?R (c # cs) (v # vs)"
      using head by simp_all
    then show ?thesis by blast
  qed
  show ?case
  proof (cases c)
    case (CleanMember m)
    show ?thesis
    proof (cases m)
      case FILTER
      obtain v s1 where v: "filter_variant self dag s = (v, s1)"
        by (cases "filter_variant self dag s")
      then have "plans_loop self dag cs (acc @ [v]) s1 = (Inr plans, s')"
        using Cons.prems CleanMember FILTER by simp
      moreover have "?R c v" using v CleanMember FILTER by (metis fst_conv)
      ultimately show ?thesis by (rule step)
    next
      case IMPUTE
      obtain v s1 where v: "impute_variant self s = (v, s1)"
        by (cases "impute_variant self s")
      then have "plans_loop self dag cs (acc @ [v]) s1 = (Inr plans, s')"
        using Cons.prems CleanMember IMPUTE by simp
      moreover have "?R c v" using v CleanMember IMPUTE by (metis fst_conv)
      ultimately show ?thesis by (rule step)
    qed
  next
    case (CleanForeign x)
    then show ?thesis using Cons.prems by simp
  qed
qed

text \<open>When every cleaning is a member of \<^verbatim>\<open>Clean\<close>, the loop returns plans.\<close>

lemma plans_loop_members:
  "\<exists>plans s'. plans_loop self dag (map CleanMember ms) acc s = (Inr plans, s')"
proof (induction ms arbitrary: acc s)
  case Nil
  then show ?case by simp
next
  case (Cons m ms)
  show ?case
  proof (cases m)
    case FILTER
    obtain v s1 where "filter_variant self dag s = (v, s1)" by (cases "filter_variant self dag s")
    with Cons [of "acc @ [v]" s1] FILTER show ?thesis by simp
  next
    case IMPUTE
    obtain v s1 where "impute_variant self s = (v, s1)" by (cases "impute_variant self s")
    with Cons [of "acc @ [v]" s1] IMPUTE show ?thesis by simp
  qed
qed

text \<open>What a successful call has gone through.\<close>

lemma generate_plans_Inr:
  assumes "fst (generate_plans_to_try self (s :: 'r singleton_state) dag) = Inr plans"
  shows "length (find_nodes_by_type dag PREDICT) = 1 \<and>
         (\<exists>s'. plans_loop
           (self\<lparr>score_nodes_and_linenos :=
                    map (\<lambda>node. (node, lineno (code_location node))) (find_nodes_by_type dag SCORE)\<rparr>)
           dag (cleanings self) [] s = (Inr plans, s'))"
proof -
  let ?self1 = "self\<lparr>score_nodes_and_linenos :=
                    map (\<lambda>node. (node, lineno (code_location node))) (find_nodes_by_type dag SCORE)\<rparr>"
  obtain r s' where loop: "plans_loop ?self1 dag (cleanings self) [] s = (r, s')"
    by (cases "plans_loop ?self1 dag (cleanings self) [] s")
  have one: "length (find_nodes_by_type dag PREDICT) = 1"
    using assms by (simp add: generate_plans_to_try_def split: if_splits)
  have "fst (generate_plans_to_try self s dag) = r"
    using assms one loop by (simp add: generate_plans_to_try_def Let_def split: if_splits)
  with assms loop one show ?thesis by simp
qed

lemma generate_plans_variants:
  assumes "fst (generate_plans_to_try self (s :: 'r singleton_state) dag) = Inr plans"
  shows "list_all2
           (\<lambda>c v. \<exists>self1 (si :: 'r singleton_state). column self1 = column self \<and>
                  ((c = CleanMember FILTER \<and> v = fst (filter_variant self1 dag si)) \<or>
                   (c = CleanMember IMPUTE \<and> v = fst (impute_variant self1 si))))
           (cleanings self) plans"
proof -
  define self1 where "self1 = self\<lparr>score_nodes_and_linenos :=
    map (\<lambda>node. (node, lineno (code_location node))) (find_nodes_by_type dag SCORE)\<rparr>"
  from generate_plans_Inr [OF assms] obtain s' where
    "plans_loop self1 dag (cleanings self) [] s = (Inr plans, s')"
    unfolding self1_def by blast
  from plans_loop_result [OF this]
  have "list_all2 (\<lambda>c v. \<exists>si :: 'r singleton_state.
                       (c = CleanMember FILTER \<and> v = fst (filter_variant self1 dag si)) \<or>
                       (c = CleanMember IMPUTE \<and> v = fst (impute_variant self1 si)))
          (cleanings self) plans" by simp
  moreover have "column self1 = column self" by (simp add: self1_def)
  ultimately show ?thesis
    by (auto elim!: list_all2_mono)
qed


lemma filter_variant_last:
  "\<exists>pid node.
     last (fst (filter_variant self dag s))
       = DataFiltering pid (analysis_id self) True node False
           (if column self \<in> set (get_columns_used_as_feature dag)
            then remdups (get_columns_used_as_feature dag) else [column self])"
  using filter_variant_shape [of self dag s] by (metis last_snoc)

lemma impute_variant_last:
  "\<exists>pid node.
     last (fst (impute_variant self s))
       = DataProjection pid (analysis_id self) True node False (column self) [column self] None"
  using impute_variant_shape [of self s] by (metis last_snoc)

text \<open>The synthetic node of each branch, for every analysis and every state of the
  singleton: the extraction patches bring no synthetic node and leave the node counter
  alone, so the node takes the counter's value.\<close>

lemma extraction_patches_nodes:
  "intervention_nodes (fst (get_intermediate_extraction_patch_after_score_nodes s self label pairs))
     = [] \<and>
   next_op_id (snd (get_intermediate_extraction_patch_after_score_nodes s self label pairs))
     = next_op_id s"
proof (induction pairs arbitrary: s)
  case Nil
  then show ?case by (simp add: intervention_nodes_def)
next
  case (Cons p pairs)
  obtain node line where p: "p = (node, line)" by (cases p)
  obtain pid s1 where g: "get_next_patch_id s = (pid, s1)" by (cases "get_next_patch_id s")
  then have s1: "next_op_id s1 = next_op_id s" by (auto simp: get_next_patch_id_def)
  obtain ps s2 where
    r: "get_intermediate_extraction_patch_after_score_nodes s1 self label pairs = (ps, s2)"
    by (cases "get_intermediate_extraction_patch_after_score_nodes s1 self label pairs")
  from Cons [of s1] r s1 have "intervention_nodes ps = []" "next_op_id s2 = next_op_id s"
    by simp_all
  then show ?case by (simp add: p g r intervention_nodes_def)
qed

lemma intervention_nodes_append:
  "intervention_nodes (xs @ ys) = intervention_nodes xs @ intervention_nodes ys"
  by (simp add: intervention_nodes_def)

lemma filter_variant_node:
  "intervention_nodes (fst (filter_variant self dag s))
     = [\<lparr>node_id = next_op_id s,
         code_location = \<lparr>caller_filename = ''Data Cleaning'', lineno = None\<rparr>,
         operator_info = \<lparr>operator = SELECTION, function_info = None\<rparr>,
         details = \<lparr>description = Some (''Clean '' @ column self @ '': filter''), columns = None\<rparr>,
         optional_code_info = None,
         processing_func = Some (partial_drop_outliers (column self) (outlier_func self))\<rparr>]"
  using extraction_patches_nodes
    [of s self "''data-cleaning-'' @ column self @ ''-filter''" "score_nodes_and_linenos self"]
  by (simp add: filter_variant_def split_def Let_def intervention_nodes_append get_next_op_id_def)
    (simp add: intervention_nodes_def)

lemma impute_variant_node:
  "intervention_nodes (fst (impute_variant self s))
     = [\<lparr>node_id = next_op_id s,
         code_location = \<lparr>caller_filename = ''DataCorruption'', lineno = None\<rparr>,
         operator_info = \<lparr>operator = PROJECTION_MODIFY, function_info = None\<rparr>,
         details = \<lparr>description = Some (''Clean '' @ column self @ '': impute''), columns = None\<rparr>,
         optional_code_info = None,
         processing_func =
           Some (partial_impute_outliers (column self) (impute_constant self) (outlier_func self))\<rparr>]"
  using extraction_patches_nodes
    [of s self "''data-cleaning-'' @ column self @ ''-impute''" "score_nodes_and_linenos self"]
  by (simp add: impute_variant_def split_def Let_def intervention_nodes_append get_next_op_id_def)
    (simp add: intervention_nodes_def)

text \<open>The ids of the patches of each branch: every patch takes the next id of the patch
  counter, and the synthetic node takes the next id of the node counter.\<close>

lemma extraction_patches_ids:
  "map patch_id (fst (get_intermediate_extraction_patch_after_score_nodes s self label pairs))
     = map (\<lambda>j. next_patch_id s + int j) [0..<length pairs] \<and>
   list_all (\<lambda>p. patch_analysis p = analysis_id self)
     (fst (get_intermediate_extraction_patch_after_score_nodes s self label pairs)) \<and>
   next_patch_id (snd (get_intermediate_extraction_patch_after_score_nodes s self label pairs))
     = next_patch_id s + int (length pairs)"
proof (induction pairs arbitrary: s)
  case Nil
  then show ?case by simp
next
  case (Cons p pairs)
  obtain node line where p: "p = (node, line)" by (cases p)
  obtain pid s1 where g: "get_next_patch_id s = (pid, s1)" by (cases "get_next_patch_id s")
  then have pid: "pid = next_patch_id s" and s1: "next_patch_id s1 = next_patch_id s + 1"
    by (auto simp: get_next_patch_id_def)
  obtain ps s2 where
    r: "get_intermediate_extraction_patch_after_score_nodes s1 self label pairs = (ps, s2)"
    by (cases "get_intermediate_extraction_patch_after_score_nodes s1 self label pairs")
  from Cons [of s1] r s1
  have ids: "map patch_id ps = map (\<lambda>j. next_patch_id s + 1 + int j) [0..<length pairs]"
    and an: "list_all (\<lambda>p. patch_analysis p = analysis_id self) ps"
    and nxt: "next_patch_id s2 = next_patch_id s + 1 + int (length pairs)"
    by simp_all
  have "map (\<lambda>j. next_patch_id s + int j) [0..<Suc (length pairs)]
          = next_patch_id s # map (\<lambda>j. next_patch_id s + 1 + int j) [0..<length pairs]"
    by (simp add: map_upt_Suc add.assoc del: upt_Suc)
  then show ?case using ids an nxt by (simp add: p g r pid del: upt_Suc)
qed

lemma extraction_patches_length:
  "length (fst (get_intermediate_extraction_patch_after_score_nodes s self label pairs))
     = length pairs"
  using extraction_patches [of s self label pairs, THEN arg_cong, of length] by simp

lemma ids_append:
  "map (\<lambda>j. a + int j) [0..<m] @ map (\<lambda>j. a + int m + int j) [0..<n]
     = map (\<lambda>j. a + int j) [0..<m + n]"
proof -
  have split: "[0..<m + n] = [0..<m] @ [m..<m + n]"
    by (rule upt_add_eq_append) simp
  have shift: "[m..<m + n] = map (\<lambda>j. j + m) [0..<n]"
    using map_add_upt [of m n] by (simp only: add.commute)
  have "map (\<lambda>j. a + int j) [0..<m + n]
          = map (\<lambda>j. a + int j) [0..<m] @ map (\<lambda>j. a + int j) (map (\<lambda>j. j + m) [0..<n])"
    by (simp only: split shift map_append)
  also have "map (\<lambda>j. a + int j) (map (\<lambda>j. j + m) [0..<n])
               = map (\<lambda>j. a + int m + int j) [0..<n]"
    by (simp add: comp_def algebra_simps)
  finally show ?thesis by simp
qed

lemma filter_variant_ids:
  "map patch_id (fst (filter_variant self dag s))
     = map (\<lambda>j. next_patch_id s + int j) [0..<length (fst (filter_variant self dag s))] \<and>
   next_patch_id (snd (filter_variant self dag s))
     = next_patch_id s + int (length (fst (filter_variant self dag s))) \<and>
   next_op_id (snd (filter_variant self dag s)) = next_op_id s + 1"
proof -
  let ?label = "''data-cleaning-'' @ column self @ ''-filter''"
  let ?b = "get_intermediate_extraction_patch_after_score_nodes s self ?label
              (score_nodes_and_linenos self)"
  let ?k = "length (score_nodes_and_linenos self)"
  have ids: "map patch_id (fst ?b) = map (\<lambda>j. next_patch_id s + int j) [0..<?k]"
    and nxt: "next_patch_id (snd ?b) = next_patch_id s + int ?k"
    using extraction_patches_ids [of s self ?label "score_nodes_and_linenos self"] by simp_all
  have len: "length (fst ?b) = ?k" by (rule extraction_patches_length)
  have op: "next_op_id (snd ?b) = next_op_id s"
    using extraction_patches_nodes [of s self ?label "score_nodes_and_linenos self"] by simp
  show ?thesis
    using ids nxt len op
    by (simp add: filter_variant_def split_def Let_def get_next_op_id_def get_next_patch_id_def)
qed

lemma impute_variant_ids:
  "map patch_id (fst (impute_variant self s))
     = map (\<lambda>j. next_patch_id s + int j) [0..<length (fst (impute_variant self s))] \<and>
   next_patch_id (snd (impute_variant self s))
     = next_patch_id s + int (length (fst (impute_variant self s))) \<and>
   next_op_id (snd (impute_variant self s)) = next_op_id s + 1"
proof -
  let ?label = "''data-cleaning-'' @ column self @ ''-impute''"
  let ?b = "get_intermediate_extraction_patch_after_score_nodes s self ?label
              (score_nodes_and_linenos self)"
  let ?k = "length (score_nodes_and_linenos self)"
  have ids: "map patch_id (fst ?b) = map (\<lambda>j. next_patch_id s + int j) [0..<?k]"
    and nxt: "next_patch_id (snd ?b) = next_patch_id s + int ?k"
    using extraction_patches_ids [of s self ?label "score_nodes_and_linenos self"] by simp_all
  have len: "length (fst ?b) = ?k" by (rule extraction_patches_length)
  have op: "next_op_id (snd ?b) = next_op_id s"
    using extraction_patches_nodes [of s self ?label "score_nodes_and_linenos self"] by simp
  show ?thesis
    using ids nxt len op
    by (simp add: impute_variant_def split_def Let_def get_next_op_id_def get_next_patch_id_def)
qed

text \<open>Over a whole run of the loop the patch ids and the node ids are consecutive, from
  the counters at entry.\<close>

lemma plans_loop_ids:
  "plans_loop self dag cs acc (s :: 'r singleton_state) = (Inr plans, s') \<Longrightarrow>
   \<exists>vs. plans = acc @ vs \<and>
     map patch_id (concat vs) = map (\<lambda>j. next_patch_id s + int j) [0..<length (concat vs)] \<and>
     map node_id (concat (map intervention_nodes vs))
       = map (\<lambda>i. next_op_id s + int i) [0..<length vs]"
proof (induction cs arbitrary: acc s)
  case Nil
  then show ?case by simp
next
  case (Cons c cs)
  have step: "\<exists>vs. plans = acc @ vs \<and>
     map patch_id (concat vs) = map (\<lambda>j. next_patch_id s + int j) [0..<length (concat vs)] \<and>
     map node_id (concat (map intervention_nodes vs))
       = map (\<lambda>i. next_op_id s + int i) [0..<length vs]"
    if run: "plans_loop self dag cs (acc @ [v]) s1 = (Inr plans, s')"
      and ids: "map patch_id v = map (\<lambda>j. next_patch_id s + int j) [0..<length v]"
      and p1: "next_patch_id s1 = next_patch_id s + int (length v)"
      and o1: "next_op_id s1 = next_op_id s + 1"
      and node: "map node_id (intervention_nodes v) = [next_op_id s]"
    for v and s1 :: "'r singleton_state"
  proof -
    from Cons.IH [OF run] obtain vs where vs: "plans = (acc @ [v]) @ vs"
      and pids: "map patch_id (concat vs)
                   = map (\<lambda>j. next_patch_id s1 + int j) [0..<length (concat vs)]"
      and nids: "map node_id (concat (map intervention_nodes vs))
                   = map (\<lambda>i. next_op_id s1 + int i) [0..<length vs]"
      by blast
    have a: "plans = acc @ (v # vs)" using vs by simp
    have b: "map patch_id (concat (v # vs))
               = map (\<lambda>j. next_patch_id s + int j) [0..<length (concat (v # vs))]"
      using ids pids p1 ids_append [of "next_patch_id s" "length v" "length (concat vs)"]
      by simp
    have "map (\<lambda>i. next_op_id s + int i) [0..<Suc (length vs)]
            = next_op_id s # map (\<lambda>i. next_op_id s + 1 + int i) [0..<length vs]"
      by (simp add: map_upt_Suc add.assoc del: upt_Suc)
    then have c: "map node_id (concat (map intervention_nodes (v # vs)))
               = map (\<lambda>i. next_op_id s + int i) [0..<length (v # vs)]"
      using node nids o1 by (simp del: upt_Suc)
    from a b c show ?thesis by blast
  qed
  show ?case
  proof (cases c)
    case (CleanMember m)
    show ?thesis
    proof (cases m)
      case FILTER
      obtain v s1 where v: "filter_variant self dag s = (v, s1)"
        by (cases "filter_variant self dag s")
      have run: "plans_loop self dag cs (acc @ [v]) s1 = (Inr plans, s')"
        using Cons.prems CleanMember FILTER v by simp
      show ?thesis
        using step [OF run] filter_variant_ids [of self dag s] filter_variant_node [of self dag s] v
        by simp
    next
      case IMPUTE
      obtain v s1 where v: "impute_variant self s = (v, s1)"
        by (cases "impute_variant self s")
      have run: "plans_loop self dag cs (acc @ [v]) s1 = (Inr plans, s')"
        using Cons.prems CleanMember IMPUTE v by simp
      show ?thesis
        using step [OF run] impute_variant_ids [of self s] impute_variant_node [of self s] v
        by simp
    qed
  next
    case (CleanForeign x)
    then show ?thesis using Cons.prems by simp
  qed
qed

lemma consecutive_ids_fresh:
  assumes "map g xs = map (\<lambda>j. a + int j) [0..<length xs]"
  shows "distinct (map g xs) \<and> list_all (\<lambda>x. a \<le> g x) xs"
proof -
  have "distinct (map (\<lambda>j. a + int j) [0..<length xs])"
    by (simp add: distinct_map inj_on_def)
  moreover have "a \<le> g x" if "x \<in> set xs" for x
  proof -
    from that have "g x \<in> set (map g xs)" by simp
    then show ?thesis unfolding assms by auto
  qed
  ultimately show ?thesis using assms by (simp add: list_all_iff)
qed

text \<open>Each branch builds a variant of its method.\<close>

lemma filter_variant_is_variant:
  "is_variant_of self dag (score_nodes_and_linenos self) FILTER (fst (filter_variant self dag s))"
proof -
  let ?b = "get_intermediate_extraction_patch_after_score_nodes s self
              (''data-cleaning-'' @ column self @ ''-filter'') (score_nodes_and_linenos self)"
  have an: "list_all (\<lambda>p. patch_analysis p = analysis_id self) (fst ?b)"
    using extraction_patches_ids by blast
  show ?thesis
    using an
    by (simp add: is_variant_of_def filter_variant_def split_def Let_def extraction_patches
        variant_label_def is_intervention_node_def get_next_op_id_def)
qed

lemma impute_variant_is_variant:
  "is_variant_of self dag (score_nodes_and_linenos self) IMPUTE (fst (impute_variant self s))"
proof -
  let ?b = "get_intermediate_extraction_patch_after_score_nodes s self
              (''data-cleaning-'' @ column self @ ''-impute'') (score_nodes_and_linenos self)"
  have an: "list_all (\<lambda>p. patch_analysis p = analysis_id self) (fst ?b)"
    using extraction_patches_ids by blast
  show ?thesis
    using an
    by (simp add: is_variant_of_def impute_variant_def split_def Let_def extraction_patches
        variant_label_def is_intervention_node_def get_next_op_id_def)
qed

lemma is_variant_of_scores_update:
  "is_variant_of (self\<lparr>score_nodes_and_linenos := x\<rparr>) dag scores m v
     = is_variant_of self dag scores m v"
  by (cases "last v") (simp_all add: is_variant_of_def is_intervention_node_def)

text \<open>
  C2. For every graph with exactly one PREDICT node whose SCORE nodes are uniquely keyed
  by node and source line, and every analysis whose error kind is OUTLIER and whose
  cleanings are all FILTER or IMPUTE, \<open>generate_plans_to_try\<close> returns plans: exactly one
  variant per requested cleaning, in the order of the request, each variant being the
  extraction patches of the analysis (one per score node and line, labelled for the
  method) followed by the single intervention patch of its method, with the node, the
  flags and the columns of that method. The ids of the patches and of the synthetic nodes
  are fresh: pairwise distinct and not below the counters at entry.
\<close>

theorem generate_plans_one_variant_per_cleaning:
  assumes "length (find_nodes_by_type dag PREDICT) = 1"
    and "distinct (map (\<lambda>node. (node, lineno (code_location node)))
                       (find_nodes_by_type dag SCORE))"
    and "error self = ErrorMember OUTLIER"
    and "cleanings self = map CleanMember ms"
  shows "\<exists>plans. fst (generate_plans_to_try self (s :: 'r singleton_state) dag) = Inr plans \<and>
           length plans = length (cleanings self) \<and>
           list_all2
             (is_variant_of self dag
                (map (\<lambda>node. (node, lineno (code_location node))) (find_nodes_by_type dag SCORE)))
             ms plans \<and>
           distinct (map patch_id (concat plans)) \<and>
           list_all (\<lambda>p. next_patch_id s \<le> patch_id p) (concat plans) \<and>
           distinct (map node_id (concat (map intervention_nodes plans))) \<and>
           list_all (\<lambda>node. next_op_id s \<le> node_id node)
             (concat (map intervention_nodes plans))"
proof -
  define scores where
    "scores = map (\<lambda>node. (node, lineno (code_location node))) (find_nodes_by_type dag SCORE)"
  define self1 where "self1 = self\<lparr>score_nodes_and_linenos := scores\<rparr>"
  obtain plans s' where loop: "plans_loop self1 dag (map CleanMember ms) [] s = (Inr plans, s')"
    using plans_loop_members by blast
  have keyed: "length scores = length (remdups scores)"
    using assms(2) by (simp add: scores_def distinct_remdups_id)
  have run: "fst (generate_plans_to_try self s dag) = Inr plans"
  proof -
    have l: "plans_loop
               (self\<lparr>score_nodes_and_linenos :=
                        map (\<lambda>node. (node, lineno (code_location node)))
                          (find_nodes_by_type dag SCORE)\<rparr>)
               dag (cleanings self) [] s = (Inr plans, s')"
      using loop assms(4) by (simp add: self1_def scores_def)
    show ?thesis
      using assms(1,3) keyed [unfolded scores_def] l
      by (simp add: generate_plans_to_try_def Let_def)
  qed
  let ?R = "\<lambda>c v. \<exists>si :: 'r singleton_state.
                 (c = CleanMember FILTER \<and> v = fst (filter_variant self1 dag si)) \<or>
                 (c = CleanMember IMPUTE \<and> v = fst (impute_variant self1 si))"
  have all: "list_all2 ?R (map CleanMember ms) plans"
    using plans_loop_result [OF loop] by simp
  have sc: "score_nodes_and_linenos self1 = scores"
    by (simp add: self1_def)
  have each: "is_variant_of self dag scores m v" if "?R (CleanMember m) v" for m v
  proof -
    have "is_variant_of self1 dag scores m v"
      using that filter_variant_is_variant [of self1 dag] impute_variant_is_variant [of self1 dag]
      by (auto simp: sc)
    then show ?thesis by (simp add: self1_def is_variant_of_scores_update)
  qed
  have variants: "list_all2 (is_variant_of self dag scores) ms plans"
    using all each by (simp add: list_all2_map1 list_all2_mono)
  have len: "length plans = length (cleanings self)"
    using all assms(4) by (simp add: list_all2_lengthD [symmetric] del: list_all2_map1)
  from plans_loop_ids [OF loop]
  have pids: "map patch_id (concat plans)
                = map (\<lambda>j. next_patch_id s + int j) [0..<length (concat plans)]"
    and nids: "map node_id (concat (map intervention_nodes plans))
                = map (\<lambda>i. next_op_id s + int i) [0..<length plans]"
    by simp_all
  have nlen: "length (concat (map intervention_nodes plans)) = length plans"
    using nids [THEN arg_cong, of length] by simp
  have fresh_p: "distinct (map patch_id (concat plans)) \<and>
                 list_all (\<lambda>p. next_patch_id s \<le> patch_id p) (concat plans)"
    using pids by (rule consecutive_ids_fresh)
  have fresh_n: "distinct (map node_id (concat (map intervention_nodes plans))) \<and>
                 list_all (\<lambda>node. next_op_id s \<le> node_id node)
                   (concat (map intervention_nodes plans))"
    using nids [folded nlen] by (rule consecutive_ids_fresh)
  from run len variants fresh_p fresh_n show ?thesis
    unfolding scores_def by blast
qed

theorem generate_plans_one_variant_per_cleaning_witness:
  "length (find_nodes_by_type accuracy_dag PREDICT) = 1 \<and>
   distinct (map (\<lambda>node. (node, lineno (code_location node)))
               (find_nodes_by_type accuracy_dag SCORE)) \<and>
   error (age_analysis [CleanMember FILTER, CleanMember IMPUTE]) = ErrorMember OUTLIER \<and>
   cleanings (age_analysis [CleanMember FILTER, CleanMember IMPUTE])
     = map CleanMember [FILTER, IMPUTE] \<and>
   (\<exists>plans.
      fst (generate_plans_to_try (age_analysis [CleanMember FILTER, CleanMember IMPUTE])
             (singleton_with Map.empty) accuracy_dag) = Inr plans \<and>
      length plans = 2 \<and>
      list_all2
        (is_variant_of (age_analysis [CleanMember FILTER, CleanMember IMPUTE]) accuracy_dag
           [(accuracy_node, Some 42)])
        [FILTER, IMPUTE] plans \<and>
      distinct (map patch_id (concat plans)) \<and>
      list_all (\<lambda>p. 0 \<le> patch_id p) (concat plans) \<and>
      distinct (map node_id (concat (map intervention_nodes plans))) \<and>
      list_all (\<lambda>node. 8 \<le> node_id node) (concat (map intervention_nodes plans)))"
proof -
  let ?self = "age_analysis [CleanMember FILTER, CleanMember IMPUTE]"
  have h1: "length (find_nodes_by_type accuracy_dag PREDICT) = 1"
    by (simp add: example_defs find_nodes_by_type_def)
  have sc: "map (\<lambda>node. (node, lineno (code_location node)))
              (find_nodes_by_type accuracy_dag SCORE) = [(accuracy_node, Some 42)]"
    by (simp add: example_defs find_nodes_by_type_def)
  have h2: "distinct (map (\<lambda>node. (node, lineno (code_location node)))
                        (find_nodes_by_type accuracy_dag SCORE))"
    by (simp add: sc)
  have h3: "error ?self = ErrorMember OUTLIER" by (simp add: example_defs)
  have h4: "cleanings ?self = map CleanMember [FILTER, IMPUTE]" by (simp add: example_defs)
  have c: "next_patch_id (singleton_with Map.empty) = 0"
    "next_op_id (singleton_with Map.empty) = 8"
    by (simp_all add: singleton_with_def)
  have two: "length (map CleanMember [FILTER, IMPUTE]) = 2" by simp
  from generate_plans_one_variant_per_cleaning [OF h1 h2 h3 h4, of "singleton_with Map.empty"]
  have "\<exists>plans.
      fst (generate_plans_to_try ?self (singleton_with Map.empty) accuracy_dag) = Inr plans \<and>
      length plans = 2 \<and>
      list_all2 (is_variant_of ?self accuracy_dag [(accuracy_node, Some 42)])
        [FILTER, IMPUTE] plans \<and>
      distinct (map patch_id (concat plans)) \<and>
      list_all (\<lambda>p. 0 \<le> patch_id p) (concat plans) \<and>
      distinct (map node_id (concat (map intervention_nodes plans))) \<and>
      list_all (\<lambda>node. 8 \<le> node_id node) (concat (map intervention_nodes plans))"
    by (simp only: sc h4 c two)
  with h1 h2 h3 h4 show ?thesis by blast
qed

text \<open>
  C7. For every graph whose number of PREDICT nodes is not 1, \<open>generate_plans_to_try\<close>
  fails with \<open>MultiplePredictNodes\<close>: it returns no plan, and leaves the analysis object
  and the singleton as they were.
\<close>

theorem generate_plans_multiple_predict:
  "length (find_nodes_by_type dag PREDICT) \<noteq> 1 \<Longrightarrow>
   generate_plans_to_try self s dag = (Inl MultiplePredictNodes, self, s)"
  by (simp add: generate_plans_to_try_def)

theorem generate_plans_multiple_predict_witness:
  "length (find_nodes_by_type two_predict_dag PREDICT) = 2 \<and>
   generate_plans_to_try (age_analysis [CleanMember FILTER, CleanMember IMPUTE])
     (singleton_with Map.empty) two_predict_dag
     = (Inl MultiplePredictNodes, age_analysis [CleanMember FILTER, CleanMember IMPUTE],
        singleton_with Map.empty)"
proof -
  have two: "length (find_nodes_by_type two_predict_dag PREDICT) = 2"
    by (simp add: example_defs find_nodes_by_type_def)
  then have "length (find_nodes_by_type two_predict_dag PREDICT) \<noteq> 1" by simp
  from generate_plans_multiple_predict [OF this] two show ?thesis by blast
qed

text \<open>
  C5. Whenever \<open>generate_plans_to_try\<close> returns plans and the cleaning at a position is
  FILTER, the variant at that position ends in the FILTER intervention's \<open>DataFiltering\<close>
  patch, and the set of columns that patch records as required equals the set of
  feature-contributing columns of the graph if and only if the target column is one of
  them; otherwise it is exactly the singleton of the target column.
\<close>

theorem filter_required_columns:
  assumes "fst (generate_plans_to_try self (s :: 'r singleton_state) dag) = Inr plans"
    and "i < length (cleanings self)"
    and "cleanings self ! i = CleanMember FILTER"
  shows "i < length plans \<and> patch_method (last (plans ! i)) = Some FILTER \<and>
         (set (read_columns (last (plans ! i))) = set (get_columns_used_as_feature dag)
            \<longleftrightarrow> column self \<in> set (get_columns_used_as_feature dag)) \<and>
         (column self \<notin> set (get_columns_used_as_feature dag)
            \<longrightarrow> set (read_columns (last (plans ! i))) = {column self})"
proof -
  have all: "list_all2
           (\<lambda>c v. \<exists>self1 (si :: 'r singleton_state). column self1 = column self \<and>
                  ((c = CleanMember FILTER \<and> v = fst (filter_variant self1 dag si)) \<or>
                   (c = CleanMember IMPUTE \<and> v = fst (impute_variant self1 si))))
           (cleanings self) plans"
    using assms(1) by (rule generate_plans_variants)
  then have len: "length plans = length (cleanings self)" by (simp add: list_all2_lengthD)
  from list_all2_nthD [OF all assms(2)] assms(3)
  obtain self1 and si :: "'r singleton_state" where col: "column self1 = column self"
    and v: "plans ! i = fst (filter_variant self1 dag si)" by auto
  obtain pid node where
    "last (plans ! i) = DataFiltering pid (analysis_id self1) True node False
           (if column self \<in> set (get_columns_used_as_feature dag)
            then remdups (get_columns_used_as_feature dag) else [column self])"
    using filter_variant_last [of self1 dag si] v col by auto
  then show ?thesis using len assms(2) by auto
qed

theorem filter_required_columns_witness:
  "(\<exists>plans.
      fst (generate_plans_to_try (age_analysis [CleanMember FILTER, CleanMember IMPUTE])
             (singleton_with Map.empty) accuracy_dag) = Inr plans \<and>
      cleanings (age_analysis [CleanMember FILTER, CleanMember IMPUTE]) ! 0 = CleanMember FILTER \<and>
      patch_method (last (plans ! 0)) = Some FILTER \<and>
      set (read_columns (last (plans ! 0))) = {''age'', ''income''}) \<and>
   (\<exists>plans.
      fst (generate_plans_to_try (age_analysis [CleanMember FILTER, CleanMember IMPUTE])
             (singleton_with Map.empty) income_only_dag) = Inr plans \<and>
      patch_method (last (plans ! 0)) = Some FILTER \<and>
      set (read_columns (last (plans ! 0))) = {''age''})"
proof -
  let ?self = "age_analysis [CleanMember FILTER, CleanMember IMPUTE]"
  have h2: "0 < length (cleanings ?self)" and h3: "cleanings ?self ! 0 = CleanMember FILTER"
    and col: "column ?self = ''age''"
    by (simp_all add: example_defs)
  have f1: "get_columns_used_as_feature accuracy_dag = [''age'', ''income'']"
    and f2: "get_columns_used_as_feature income_only_dag = [''income'']"
    by (simp_all add: get_columns_used_as_feature_def accuracy_dag_def income_only_dag_def)
  have "\<exists>plans. fst (generate_plans_to_try ?self (singleton_with Map.empty) accuracy_dag) = Inr plans"
    by (simp add: example_defs plan_eval)
  then obtain plans1 where
    r1: "fst (generate_plans_to_try ?self (singleton_with Map.empty) accuracy_dag) = Inr plans1"
    by blast
  have "\<exists>plans. fst (generate_plans_to_try ?self (singleton_with Map.empty) income_only_dag) = Inr plans"
    by (simp add: example_defs income_only_dag_def plan_eval)
  then obtain plans2 where
    r2: "fst (generate_plans_to_try ?self (singleton_with Map.empty) income_only_dag) = Inr plans2"
    by blast
  have a: "patch_method (last (plans1 ! 0)) = Some FILTER \<and>
           set (read_columns (last (plans1 ! 0))) = {''age'', ''income''}"
    using filter_required_columns [OF r1 h2 h3] by (simp add: col f1)
  have b: "patch_method (last (plans2 ! 0)) = Some FILTER \<and>
           set (read_columns (last (plans2 ! 0))) = {''age''}"
    using filter_required_columns [OF r2 h2 h3] by (simp add: col f2)
  from r1 r2 h3 a b show ?thesis by blast
qed

text \<open>
  C6. Whenever \<open>generate_plans_to_try\<close> returns plans and the cleaning at a position is
  IMPUTE, the variant at that position ends in the IMPUTE intervention's \<open>DataProjection\<close>
  patch, which declares exactly one read column and exactly one written column, both the
  target column of the analysis.
\<close>

theorem impute_patch_columns:
  assumes "fst (generate_plans_to_try self (s :: 'r singleton_state) dag) = Inr plans"
    and "i < length (cleanings self)"
    and "cleanings self ! i = CleanMember IMPUTE"
  shows "i < length plans \<and> patch_method (last (plans ! i)) = Some IMPUTE \<and>
         read_columns (last (plans ! i)) = [column self] \<and>
         written_columns (last (plans ! i)) = [column self]"
proof -
  have all: "list_all2
           (\<lambda>c v. \<exists>self1 (si :: 'r singleton_state). column self1 = column self \<and>
                  ((c = CleanMember FILTER \<and> v = fst (filter_variant self1 dag si)) \<or>
                   (c = CleanMember IMPUTE \<and> v = fst (impute_variant self1 si))))
           (cleanings self) plans"
    using assms(1) by (rule generate_plans_variants)
  then have len: "length plans = length (cleanings self)" by (simp add: list_all2_lengthD)
  from list_all2_nthD [OF all assms(2)] assms(3)
  obtain self1 and si :: "'r singleton_state" where col: "column self1 = column self"
    and v: "plans ! i = fst (impute_variant self1 si)" by auto
  obtain pid node where
    "last (plans ! i) = DataProjection pid (analysis_id self1) True node False
           (column self) [column self] None"
    using impute_variant_last [of self1 si] v col by auto
  then show ?thesis using len assms(2) by auto
qed

theorem impute_patch_columns_witness:
  "\<exists>plans.
      fst (generate_plans_to_try (age_analysis [CleanMember FILTER, CleanMember IMPUTE])
             (singleton_with Map.empty) accuracy_dag) = Inr plans \<and>
      cleanings (age_analysis [CleanMember FILTER, CleanMember IMPUTE]) ! 1 = CleanMember IMPUTE \<and>
      patch_method (last (plans ! 1)) = Some IMPUTE \<and>
      read_columns (last (plans ! 1)) = [''age''] \<and>
      written_columns (last (plans ! 1)) = [''age'']"
proof -
  let ?self = "age_analysis [CleanMember FILTER, CleanMember IMPUTE]"
  have h2: "1 < length (cleanings ?self)" and h3: "cleanings ?self ! 1 = CleanMember IMPUTE"
    and col: "column ?self = ''age''"
    by (simp_all add: example_defs)
  have "\<exists>plans. fst (generate_plans_to_try ?self (singleton_with Map.empty) accuracy_dag) = Inr plans"
    by (simp add: example_defs plan_eval)
  then obtain plans where
    r: "fst (generate_plans_to_try ?self (singleton_with Map.empty) accuracy_dag) = Inr plans"
    by blast
  have "patch_method (last (plans ! 1)) = Some IMPUTE \<and>
        read_columns (last (plans ! 1)) = [''age''] \<and>
        written_columns (last (plans ! 1)) = [''age'']"
    using impute_patch_columns [OF r h2 h3] by (simp add: col)
  with r h3 show ?thesis by blast
qed

text \<open>The bound transforms are the two functions with the column, the constant and the
  predicate of the analysis.\<close>

lemma bound_transforms:
  "call_partial (partial_drop_outliers col f) df = Some (drop_outliers df col f)"
  "call_partial (partial_impute_outliers col c f) df = Some (impute_outliers df col c f)"
  by simp_all

text \<open>
  C9 fails on the code for IMPUTE. For the analysis of column \<open>age\<close> with the cleanings
  FILTER and IMPUTE on the example graph, the two synthetic nodes are as follows: both
  carry the next id of the counter (8, then 9), their operator kinds, their descriptions
  and their bound transforms, but only the FILTER node is tagged \<open>Data Cleaning\<close>; the
  IMPUTE node is tagged \<open>DataCorruption\<close>.
\<close>

theorem intervention_nodes_example:
  "map_sum id (map intervention_nodes)
     (fst (generate_plans_to_try (age_analysis [CleanMember FILTER, CleanMember IMPUTE])
             (singleton_with Map.empty) accuracy_dag))
   = Inr [[\<lparr>node_id = 8,
             code_location = \<lparr>caller_filename = ''Data Cleaning'', lineno = None\<rparr>,
             operator_info = \<lparr>operator = SELECTION, function_info = None\<rparr>,
             details = \<lparr>description = Some ''Clean age: filter'', columns = None\<rparr>,
             optional_code_info = None,
             processing_func = Some (partial_drop_outliers ''age'' (outliers_above 100))\<rparr>],
          [\<lparr>node_id = 9,
             code_location = \<lparr>caller_filename = ''DataCorruption'', lineno = None\<rparr>,
             operator_info = \<lparr>operator = PROJECTION_MODIFY, function_info = None\<rparr>,
             details = \<lparr>description = Some ''Clean age: impute'', columns = None\<rparr>,
             optional_code_info = None,
             processing_func = Some (partial_impute_outliers ''age'' 0 (outliers_above 100))\<rparr>]]"
  by (simp add: example_defs plan_eval intervention_nodes_def)

section \<open>Properties of the report\<close>

lemmas report_eval =
  generate_final_report_def pandas_DataFrame_def report_dict_def format_lineno_def str_int_def
  digits_of.simps format_description_def column_names_def df_rows_def Let_def

lemma planned_analysis_eq:
  "planned_analysis =
     (age_analysis [CleanMember FILTER, CleanMember IMPUTE])
       \<lparr>score_nodes_and_linenos := [(accuracy_node, Some 42)]\<rparr>"
  by (simp add: planned_analysis_def example_defs plan_eval)

text \<open>
  C1. For an analysis of column \<open>age\<close> with error kind OUTLIER and the cleanings FILTER and
  IMPUTE, whose only recorded score node is described \<open>accuracy\<close> at line 42, and the
  results mapping holding 0.80, 0.83 and 0.81 under the baseline, filter and impute labels,
  \<open>generate_final_report\<close> returns a table with the columns \<open>corrupted_column\<close>, \<open>error\<close>,
  \<open>cleaning_method\<close>, \<open>accuracy_L42\<close> and exactly three rows: the baseline as row 0 with
  empty metadata, then one row per cleaning method in the order of the request. The
  results mapping is the one the code reads, that of the singleton; the pipeline executor
  passes the same mapping as the argument, and the theorem holds whatever is passed.
\<close>

theorem accuracy_report:
  assumes "map (\<lambda>(score_node, line). (description (details score_node), line))
             (score_nodes_and_linenos self) = [(Some ''accuracy'', Some 42)]"
    and "column self = ''age''"
    and "error self = ErrorMember OUTLIER"
    and "cleanings self = [CleanMember FILTER, CleanMember IMPUTE]"
    and "labels_to_extracted_plan_results s = accuracy_results"
  shows "\<exists>report. generate_final_report self s extracted = Inr report \<and>
           df_index report = [0, 1, 2] \<and>
           column_names report = [''corrupted_column'', ''error'', ''cleaning_method'', ''accuracy_L42''] \<and>
           df_rows report =
             [[NoneCell, NoneCell, NoneCell, ResultCell 0.80],
              [StrCell ''age'', StrCell ''outliers'', StrCell ''filter'', ResultCell 0.83],
              [StrCell ''age'', StrCell ''outliers'', StrCell ''impute'', ResultCell 0.81]]"
proof -
  have "generate_final_report self s extracted =
          Inr \<lparr>df_index = [0, 1, 2],
               df_columns =
                 [(''corrupted_column'', [NoneCell, StrCell ''age'', StrCell ''age'']),
                  (''error'', [NoneCell, StrCell ''outliers'', StrCell ''outliers'']),
                  (''cleaning_method'', [NoneCell, StrCell ''filter'', StrCell ''impute'']),
                  (''accuracy_L42'', [ResultCell 0.80, ResultCell 0.83, ResultCell 0.81])]\<rparr>"
    using assms by (simp add: report_eval accuracy_results_def)
  then show ?thesis
    by (simp add: column_names_def df_rows_def)
qed

theorem accuracy_report_witness:
  "\<exists>report.
     generate_final_report planned_analysis (singleton_with accuracy_results) Map.empty
       = Inr report \<and>
     df_index report = [0, 1, 2] \<and>
     column_names report = [''corrupted_column'', ''error'', ''cleaning_method'', ''accuracy_L42''] \<and>
     df_rows report =
       [[NoneCell, NoneCell, NoneCell, ResultCell 0.80],
        [StrCell ''age'', StrCell ''outliers'', StrCell ''filter'', ResultCell 0.83],
        [StrCell ''age'', StrCell ''outliers'', StrCell ''impute'', ResultCell 0.81]]"
proof -
  have h1: "map (\<lambda>(score_node, line). (description (details score_node), line))
              (score_nodes_and_linenos planned_analysis) = [(Some ''accuracy'', Some 42)]"
    and h2: "column planned_analysis = ''age''"
    and h3: "error planned_analysis = ErrorMember OUTLIER"
    and h4: "cleanings planned_analysis = [CleanMember FILTER, CleanMember IMPUTE]"
    by (simp_all add: planned_analysis_eq example_defs)
  have h5: "labels_to_extracted_plan_results (singleton_with accuracy_results) = accuracy_results"
    by (simp add: singleton_with_def)
  show ?thesis
    by (rule accuracy_report [OF h1 h2 h3 h4 h5])
qed

text \<open>The inner loop fails only with a label the results do not hold, and returns only
  when they hold the label of every score line.\<close>

lemma metrics_loop_cases:
  "(\<exists>l. metrics_loop results prefix pairs m = Inl (MissingExtractedResult l) \<and> results l = None)
   \<or> (\<exists>m'. metrics_loop results prefix pairs m = Inr m' \<and>
         list_all (\<lambda>line. results (prefix @ ''_L'' @ format_lineno line) \<noteq> None) (map snd pairs))"
proof (induction pairs arbitrary: m)
  case Nil
  then show ?case by simp
next
  case (Cons p pairs)
  obtain d line where p: "p = (d, line)" by (cases p)
  show ?case
  proof (cases "results (prefix @ ''_L'' @ format_lineno line)")
    case None
    then show ?thesis by (auto simp: p Let_def)
  next
    case (Some v)
    let ?name = "format_description d @ ''_L'' @ format_lineno line"
    let ?m = "AList.update ?name
                ((case map_of m ?name of None \<Rightarrow> [] | Some vs \<Rightarrow> vs) @ [v]) m"
    have step: "metrics_loop results prefix (p # pairs) m = metrics_loop results prefix pairs ?m"
      using Some by (simp add: p Let_def)
    from Cons [of ?m] show ?thesis
      unfolding step using Some by (auto simp: p)
  qed
qed

text \<open>The outer loop, for an error kind and cleanings that are enumeration members.\<close>

lemma report_rows_loop_cases:
  "(\<exists>l. report_rows_loop results col (ErrorMember e) pairs (map CleanMember ms) acc
           = Inl (MissingExtractedResult l) \<and> results l = None)
   \<or> (\<exists>acc'. report_rows_loop results col (ErrorMember e) pairs (map CleanMember ms) acc = Inr acc' \<and>
         list_all (\<lambda>m. list_all (\<lambda>line. results (variant_label col m line) \<noteq> None)
                          (map snd pairs)) ms)"
proof (induction ms arbitrary: acc)
  case Nil
  then show ?case by simp
next
  case (Cons m ms)
  let ?prefix = "''data-cleaning-'' @ col @ ''-'' @ Clean_value m"
  have lab: "variant_label col m line = ?prefix @ ''_L'' @ format_lineno line" for line
    by (simp add: variant_label_def)
  from metrics_loop_cases [of results ?prefix pairs "result_df_metrics acc"]
  show ?case
  proof (elim disjE exE conjE)
    fix l
    assume "metrics_loop results ?prefix pairs (result_df_metrics acc)
              = Inl (MissingExtractedResult l)" "results l = None"
    then show ?thesis by auto
  next
    fix m'
    assume ok: "metrics_loop results ?prefix pairs (result_df_metrics acc) = Inr m'"
      and present: "list_all (\<lambda>line. results (?prefix @ ''_L'' @ format_lineno line) \<noteq> None)
                      (map snd pairs)"
    let ?acc = "\<lparr>result_df_columns = result_df_columns acc @ [StrCell col],
                 result_df_errors = result_df_errors acc @ [StrCell (ErrorType_value e)],
                 result_df_cleaning_methods =
                   result_df_cleaning_methods acc @ [StrCell (Clean_value m)],
                 result_df_metrics = m'\<rparr>"
    have step: "report_rows_loop results col (ErrorMember e) pairs (map CleanMember (m # ms)) acc
                  = report_rows_loop results col (ErrorMember e) pairs (map CleanMember ms) ?acc"
      using ok by simp
    from Cons [of ?acc] show ?thesis
      unfolding step using present by (auto simp: lab)
  qed
qed

text \<open>
  C8. For an analysis whose error kind and cleanings are enumeration members: if any
  required label (the baseline label \<^verbatim>\<open>original_L{line}\<close> of a score line, or the label
  \<^verbatim>\<open>data-cleaning-{column}-{method}_L{line}\<close> of a cleaning and score line) is absent from
  the shared results mapping, \<open>generate_final_report\<close> returns no table: it fails with
  \<open>MissingExtractedResult\<close> for a label that is absent.
\<close>

theorem missing_label_fails:
  assumes "error self = ErrorMember e"
    and "cleanings self = map CleanMember ms"
    and "label \<in> set (required_labels (column self) ms (map snd (score_nodes_and_linenos self)))"
    and "labels_to_extracted_plan_results s label = None"
  shows "\<exists>missing. generate_final_report self s extracted = Inl (MissingExtractedResult missing) \<and>
           labels_to_extracted_plan_results s missing = None"
proof -
  let ?results = "labels_to_extracted_plan_results s"
  let ?pairs = "map (\<lambda>(score_node, line). (description (details score_node), line))
                  (score_nodes_and_linenos self)"
  have lines: "map snd ?pairs = map snd (score_nodes_and_linenos self)"
    by (simp add: split_def)
  from metrics_loop_cases [of ?results "''original''" ?pairs "[]"]
  show ?thesis
  proof (elim disjE exE conjE)
    fix l
    assume "metrics_loop ?results ''original'' ?pairs [] = Inl (MissingExtractedResult l)"
      "?results l = None"
    then show ?thesis by (auto simp: generate_final_report_def)
  next
    fix m'
    assume base: "metrics_loop ?results ''original'' ?pairs [] = Inr m'"
      and base_present: "list_all (\<lambda>line. ?results (''original'' @ ''_L'' @ format_lineno line) \<noteq> None)
                           (map snd ?pairs)"
    let ?acc = "\<lparr>result_df_columns = [NoneCell], result_df_errors = [NoneCell],
                 result_df_cleaning_methods = [NoneCell], result_df_metrics = m'\<rparr>"
    from report_rows_loop_cases [of ?results "column self" e ?pairs ms ?acc]
    show ?thesis
    proof (elim disjE exE conjE)
      fix l
      assume "report_rows_loop ?results (column self) (ErrorMember e) ?pairs (map CleanMember ms) ?acc
                = Inl (MissingExtractedResult l)" "?results l = None"
      then show ?thesis using base assms(1,2) by (auto simp: generate_final_report_def)
    next
      fix acc'
      assume "list_all (\<lambda>m. list_all (\<lambda>line. ?results (variant_label (column self) m line) \<noteq> None)
                          (map snd ?pairs)) ms"
      with base_present have "\<forall>l \<in> set (required_labels (column self) ms
                                          (map snd (score_nodes_and_linenos self))). ?results l \<noteq> None"
        unfolding lines by (auto simp: required_labels_def list_all_iff)
      with assms(3,4) show ?thesis by blast
    qed
  qed
qed

theorem missing_label_fails_witness:
  "error planned_analysis = ErrorMember OUTLIER \<and>
   cleanings planned_analysis = map CleanMember [FILTER, IMPUTE] \<and>
   ''data-cleaning-age-impute_L42''
     \<in> set (required_labels (column planned_analysis) [FILTER, IMPUTE]
              (map snd (score_nodes_and_linenos planned_analysis))) \<and>
   labels_to_extracted_plan_results (singleton_with results_without_impute)
     ''data-cleaning-age-impute_L42'' = None \<and>
   (\<exists>missing.
      generate_final_report planned_analysis (singleton_with results_without_impute) Map.empty
        = Inl (MissingExtractedResult missing) \<and>
      labels_to_extracted_plan_results (singleton_with results_without_impute) missing = None)"
proof -
  have h1: "error planned_analysis = ErrorMember OUTLIER"
    and h2: "cleanings planned_analysis = map CleanMember [FILTER, IMPUTE]"
    by (simp_all add: planned_analysis_eq example_defs)
  have h3: "''data-cleaning-age-impute_L42''
              \<in> set (required_labels (column planned_analysis) [FILTER, IMPUTE]
                       (map snd (score_nodes_and_linenos planned_analysis)))"
    by (simp add: planned_analysis_eq example_defs required_labels_def variant_label_def
        format_lineno_def str_int_def digits_of.simps)
  have h4: "labels_to_extracted_plan_results (singleton_with results_without_impute)
              ''data-cleaning-age-impute_L42'' = None"
    by (simp add: singleton_with_def results_without_impute_def)
  from missing_label_fails [OF h1 h2 h3 h4, of Map.empty] h1 h2 h3 h4
  show ?thesis by blast
qed

text \<open>What the code returns in that example: the absent label is reported.\<close>

lemma missing_impute_label_example:
  "generate_final_report planned_analysis (singleton_with results_without_impute) Map.empty
     = Inl (MissingExtractedResult ''data-cleaning-age-impute_L42'')"
  by (simp add: planned_analysis_eq example_defs report_eval results_without_impute_def)

text \<open>
  C10. The report does not depend on the argument \<open>extracted_plan_results\<close>: for the same
  analysis object and the same singleton, any two mappings passed as the argument give
  the same result, since every value is looked up in the singleton's mapping.
\<close>

theorem report_ignores_argument:
  "generate_final_report self s extracted1 = generate_final_report self s extracted2"
  by (simp add: generate_final_report_def)

text \<open>With the values only in the argument and none in the singleton, no report is made.\<close>

lemma report_from_argument_only_example:
  "generate_final_report planned_analysis (singleton_with Map.empty) accuracy_results
     = Inl (MissingExtractedResult ''original_L42'')"
  by (simp add: planned_analysis_eq example_defs report_eval)

end
